theory Spec2Isabelle
  imports Complex_Main
begin

section \<open>JavaScript strings and numbers\<close>

text \<open>
  A JavaScript string is a sequence of UTF-16 code units; a code unit is modelled as a
  natural number. \<open>js\<close> turns an ASCII literal into its code units.
\<close>

type_synonym jsstring = "nat list"

definition js :: "string \<Rightarrow> jsstring" where
  "js s = map of_char s"

text \<open>The class \<^verbatim>\<open>\d\<close> of a regular expression without the unicode flag.\<close>

definition isDigit :: "nat \<Rightarrow> bool" where
  "isDigit c \<longleftrightarrow> 48 \<le> c \<and> c \<le> 57"

text \<open>
  The class \<^verbatim>\<open>\s\<close>, which is also what \<^verbatim>\<open>String.prototype.trim\<close> and
  \<^verbatim>\<open>parseInt\<close> strip: white space and line terminators.
\<close>

definition isWhiteSpace :: "nat \<Rightarrow> bool" where
  "isWhiteSpace c \<longleftrightarrow>
     c = 9 \<or> c = 10 \<or> c = 11 \<or> c = 12 \<or> c = 13 \<or> c = 32 \<or> c = 160 \<or> c = 5760 \<or>
     (8192 \<le> c \<and> c \<le> 8202) \<or> c = 8232 \<or> c = 8233 \<or> c = 8239 \<or> c = 8287 \<or>
     c = 12288 \<or> c = 65279"

definition trim :: "jsstring \<Rightarrow> jsstring" where
  "trim s = rev (dropWhile isWhiteSpace (rev (dropWhile isWhiteSpace s)))"

text \<open>\<^verbatim>\<open>s.split(c)\<close> for a separator of one code unit; the empty string gives one empty token.\<close>

fun splitOn :: "nat \<Rightarrow> jsstring \<Rightarrow> jsstring list" where
  "splitOn c [] = [[]]"
| "splitOn c (x # xs) =
     (if x = c then [] # splitOn c xs
      else (case splitOn c xs of t # ts \<Rightarrow> (x # t) # ts | [] \<Rightarrow> [[x]]))"

text \<open>A regular expression that is a fixed sequence of character classes, anchored at both ends.\<close>

definition matchClasses :: "(nat \<Rightarrow> bool) list \<Rightarrow> jsstring \<Rightarrow> bool" where
  "matchClasses ps s = list_all2 (\<lambda>p c. p c) ps s"

definition lit :: "string \<Rightarrow> nat \<Rightarrow> bool" where
  "lit s c \<longleftrightarrow> [c] = js s"

text \<open>Decimal rendering of a non-negative integer, as \<^verbatim>\<open>Number.prototype.toString\<close> gives it.\<close>

function digitsOf :: "nat \<Rightarrow> jsstring" where
  "digitsOf n = (if n < 10 then [48 + n] else digitsOf (n div 10) @ [48 + n mod 10])"
  by pat_completeness auto
termination
  by (relation "measure id") auto

declare digitsOf.simps [simp del]

text \<open>
  An integer-valued JavaScript number or \<^verbatim>\<open>NaN\<close> (\<open>None\<close>). Comparisons with
  \<^verbatim>\<open>NaN\<close> are false, arithmetic on it gives \<^verbatim>\<open>NaN\<close>.
\<close>

type_synonym jsint = "int option"

definition intLess :: "jsint \<Rightarrow> int \<Rightarrow> bool" where
  "intLess a b = (case a of None \<Rightarrow> False | Some x \<Rightarrow> x < b)"

definition intGreater :: "jsint \<Rightarrow> int \<Rightarrow> bool" where
  "intGreater a b = (case a of None \<Rightarrow> False | Some x \<Rightarrow> b < x)"

definition intPlus :: "jsint \<Rightarrow> int \<Rightarrow> jsint" where
  "intPlus a b = map_option (\<lambda>x. x + b) a"

definition numToString :: "int \<Rightarrow> jsstring" where
  "numToString i = (if i < 0 then js ''-'' @ digitsOf (nat (- i)) else digitsOf (nat i))"

definition intToString :: "jsint \<Rightarrow> jsstring" where
  "intToString a = (case a of None \<Rightarrow> js ''NaN'' | Some x \<Rightarrow> numToString x)"

text \<open>\<^verbatim>\<open>s.padStart(2, "0")\<close>.\<close>

definition padStart2 :: "jsstring \<Rightarrow> jsstring" where
  "padStart2 s = replicate (2 - length s) 48 @ s"

text \<open>
  \<^verbatim>\<open>parseInt(s)\<close> with no radix: leading white space is skipped, a sign is read, a
  \<^verbatim>\<open>0x\<close> prefix selects radix 16, the longest prefix of digits is the value, and no digit
  at all gives \<^verbatim>\<open>NaN\<close>. The value is the exact integer (a double rounds it above \<open>2^53\<close>;
  the callers below read two digits or clamp the result to \<open>[0, 10]\<close>).
\<close>

definition digitValue :: "nat \<Rightarrow> nat" where
  "digitValue c =
     (if 48 \<le> c \<and> c \<le> 57 then c - 48
      else if 97 \<le> c \<and> c \<le> 122 then c - 87
      else if 65 \<le> c \<and> c \<le> 90 then c - 55
      else 36)"

definition parseInt :: "jsstring \<Rightarrow> jsint" where
  "parseInt str =
     (let s = dropWhile isWhiteSpace str;
          sign = (case s of c # r \<Rightarrow> if c = 45 then - 1 else 1 | [] \<Rightarrow> (1::int));
          s1 = (case s of c # r \<Rightarrow> if c = 45 \<or> c = 43 then r else s | [] \<Rightarrow> s);
          hex = (case s1 of a # b # r \<Rightarrow> a = 48 \<and> (b = 120 \<or> b = 88) | _ \<Rightarrow> False);
          radix = (if hex then 16 else 10);
          s2 = (if hex then drop 2 s1 else s1);
          ds = takeWhile (\<lambda>c. digitValue c < radix) s2
      in if ds = [] then None
         else Some (sign * int (foldl (\<lambda>a c. a * radix + digitValue c) 0 ds)))"

section \<open>Invoice number and file name (invoice generator)\<close>

text \<open>
  What \<^verbatim>\<open>new Date()\<close> reads from the clock: \<^verbatim>\<open>getFullYear()\<close>, \<^verbatim>\<open>getMonth()\<close>
  (January is 0) and \<^verbatim>\<open>getDate()\<close>.
\<close>

record clock =
  fullYear :: int
  month0 :: nat
  dayOfMonth :: nat

text \<open>
  \<^verbatim>\<open>generateInvoiceNumber\<close>. The clock reading and the value of \<^verbatim>\<open>Math.random()\<close>, a
  number \<open>r\<close> with \<open>0 \<le> r < 1\<close>, are explicit inputs.
\<close>

definition generateInvoiceNumber :: "clock \<Rightarrow> rat \<Rightarrow> jsstring" where
  "generateInvoiceNumber now r =
     (let year = fullYear now;
          month = padStart2 (numToString (int (month0 now) + 1));
          day = padStart2 (numToString (int (dayOfMonth now)));
          timestamp = \<lfloor>r * 10000\<rfloor>
      in numToString year @ js ''-'' @ month @ js ''-'' @ day @ js ''-'' @ numToString timestamp)"

text \<open>
  \<^verbatim>\<open>sanitizeFilename\<close>: five steps, in the order of the source. \<open>replaceRuns p\<close> is
  \<^verbatim>\<open>replace(/p+/g, '-')\<close>; \<open>stripHyphens\<close> is \<^verbatim>\<open>replace(/^-|-$/g, '')\<close>, which removes
  one hyphen at the start and one at the end.
\<close>

definition isUnsafeChar :: "nat \<Rightarrow> bool" where
  "isUnsafeChar c \<longleftrightarrow>
     c = 60 \<or> c = 62 \<or> c = 58 \<or> c = 34 \<or> c = 47 \<or> c = 92 \<or> c = 124 \<or> c = 63 \<or> c = 42 \<or> c \<le> 31"

function replaceRuns :: "(nat \<Rightarrow> bool) \<Rightarrow> jsstring \<Rightarrow> jsstring" where
  "replaceRuns p [] = []"
| "replaceRuns p (c # cs) =
     (if p c then 45 # replaceRuns p (dropWhile p cs) else c # replaceRuns p cs)"
  by pat_completeness auto
termination
  by (relation "measure (\<lambda>(p, s). length s)") (auto simp: length_dropWhile_le less_Suc_eq_le)

definition stripHyphens :: "jsstring \<Rightarrow> jsstring" where
  "stripHyphens s =
     (let s1 = (case s of c # r \<Rightarrow> if c = 45 then r else s | [] \<Rightarrow> s)
      in if s1 \<noteq> [] \<and> last s1 = 45 then butlast s1 else s1)"

definition sanitizeFilename :: "jsstring \<Rightarrow> jsstring" where
  "sanitizeFilename filename =
     take 50
       (stripHyphens
         (replaceRuns (\<lambda>c. c = 45)
           (replaceRuns isWhiteSpace
             (map (\<lambda>c. if isUnsafeChar c then 45 else c) filename))))"

section \<open>Date/time normaliser (plugin main file)\<close>

text \<open>
  \<^verbatim>\<open>new Date(s).getTime()\<close> belongs to the JavaScript engine, not to the plugin. It is a
  parameter \<open>dateValue\<close> of every function that calls it: the time value in milliseconds, or
  \<open>None\<close> when the engine answers \<^verbatim>\<open>NaN\<close> (an invalid date).
\<close>

type_synonym dateParser = "jsstring \<Rightarrow> int option"

text \<open>The two patterns \<^verbatim>\<open>/^\d{2}-\d{2}-\d{2}$/\<close> and \<^verbatim>\<open>/^\d{2}:\d{2}:\d{2}$/\<close>.\<close>

definition datePattern :: "(nat \<Rightarrow> bool) list" where
  "datePattern = [isDigit, isDigit, lit ''-'', isDigit, isDigit, lit ''-'', isDigit, isDigit]"

definition timePattern :: "(nat \<Rightarrow> bool) list" where
  "timePattern = [isDigit, isDigit, lit '':'', isDigit, isDigit, lit '':'', isDigit, isDigit]"

text \<open>
  \<^verbatim>\<open>parseTimeTrackerDate\<close>. \<open>None\<close> as input is \<^verbatim>\<open>undefined\<close>, \<open>None\<close> as result is
  \<^verbatim>\<open>null\<close>. No operation inside the \<^verbatim>\<open>try\<close> block can throw on a string, so the
  \<^verbatim>\<open>catch\<close> branch has no case of its own.
\<close>

definition parseTimeTrackerDate :: "dateParser \<Rightarrow> jsstring option \<Rightarrow> jsstring option" where
  "parseTimeTrackerDate dateValue dateStr =
     (case dateStr of
        None \<Rightarrow> None
      | Some str \<Rightarrow>
          if str = [] \<or> trim str = [] then None
          else
            let parts = splitOn 32 str in
            if length parts \<noteq> 2 then None
            else
              let datePart = parts ! 0; timePart = parts ! 1 in
              if \<not> matchClasses datePattern datePart \<or> \<not> matchClasses timePattern timePart
              then None
              else
                let dateComponents = splitOn 45 datePart in
                if length dateComponents \<noteq> 3 then None
                else
                  let year = parseInt (dateComponents ! 0);
                      month = parseInt (dateComponents ! 1);
                      day = parseInt (dateComponents ! 2) in
                  if intLess month 1 \<or> intGreater month 12 \<or> intLess day 1 \<or> intGreater day 31
                  then None
                  else
                    let year' = (if intLess year 50 then intPlus year 2000 else intPlus year 1900) in
                    if intLess year' 1900 \<or> intGreater year' 2100 then None
                    else
                      let isoDate = intToString year' @ js ''-'' @ padStart2 (intToString month)
                                      @ js ''-'' @ padStart2 (intToString day) @ js ''T'' @ timePart in
                      if dateValue isoDate = None then None else Some isoDate)"

text \<open>
  The claim's description of the normaliser, written on the characters of the input: the input
  is two digits, hyphen, two digits, hyphen, two digits, one space and a time of three colon
  separated digit pairs; the first pair is the year, the second the month in \<open>[1, 12]\<close>, the
  third the day in \<open>[1, 31]\<close>; the canonical string puts the century in front and a \<open>T\<close> in
  place of the space.
\<close>

definition twoDigits :: "nat \<Rightarrow> nat \<Rightarrow> int" where
  "twoDigits a b = 10 * (int a - 48) + (int b - 48)"

definition canonicalForm :: "jsstring \<Rightarrow> jsstring option" where
  "canonicalForm s =
     (if matchClasses (datePattern @ [lit '' ''] @ timePattern) s
         \<and> 1 \<le> twoDigits (s ! 3) (s ! 4) \<and> twoDigits (s ! 3) (s ! 4) \<le> 12
         \<and> 1 \<le> twoDigits (s ! 6) (s ! 7) \<and> twoDigits (s ! 6) (s ! 7) \<le> 31
      then Some ((if twoDigits (s ! 0) (s ! 1) < 50 then js ''20'' else js ''19'')
                   @ take 8 s @ js ''T'' @ drop 9 s)
      else None)"

text \<open>
  One engine, to evaluate the definitions on concrete inputs: the date-time string format of
  the ECMAScript standard for the form \<^verbatim>\<open>YYYY-MM-DDTHH:mm:ss\<close>, read at offset zero from UTC.
  Every other string is taken as invalid.
\<close>

definition decimalValue :: "jsstring \<Rightarrow> int" where
  "decimalValue s = foldl (\<lambda>a c. a * 10 + (int c - 48)) 0 s"

definition daysInMonth :: "int \<Rightarrow> int \<Rightarrow> int" where
  "daysInMonth y m =
     (if m = 2 then (if y mod 4 = 0 \<and> (y mod 100 \<noteq> 0 \<or> y mod 400 = 0) then 29 else 28)
      else if m = 4 \<or> m = 6 \<or> m = 9 \<or> m = 11 then 30 else 31)"

definition daysFromCivil :: "int \<Rightarrow> int \<Rightarrow> int \<Rightarrow> int" where
  "daysFromCivil y m d =
     (let y1 = (if m \<le> 2 then y - 1 else y);
          era = y1 div 400;
          yoe = y1 - era * 400;
          doy = (153 * (if m > 2 then m - 3 else m + 9) + 2) div 5 + d - 1;
          doe = yoe * 365 + yoe div 4 - yoe div 100 + doy
      in era * 146097 + doe - 719468)"

definition isoPattern :: "(nat \<Rightarrow> bool) list" where
  "isoPattern = [isDigit, isDigit, isDigit, isDigit, lit ''-'', isDigit, isDigit, lit ''-'',
                 isDigit, isDigit, lit ''T'', isDigit, isDigit, lit '':'', isDigit, isDigit,
                 lit '':'', isDigit, isDigit]"

text \<open>
  A canonical string that denotes a real calendar instant: the form \<^verbatim>\<open>YYYY-MM-DDTHH:MM:SS\<close>
  with a month from 1 to 12, a day that this month has in this year, an hour up to 23 and
  minutes and seconds up to 59.
\<close>

definition realInstant :: "jsstring \<Rightarrow> bool" where
  "realInstant c \<longleftrightarrow>
     matchClasses isoPattern c \<and>
     (let y = decimalValue (take 4 c); mo = decimalValue (take 2 (drop 5 c));
          d = decimalValue (take 2 (drop 8 c)); h = decimalValue (take 2 (drop 11 c));
          mi = decimalValue (take 2 (drop 14 c)); se = decimalValue (take 2 (drop 17 c))
      in 1 \<le> mo \<and> mo \<le> 12 \<and> 1 \<le> d \<and> d \<le> daysInMonth y mo
         \<and> h \<le> 23 \<and> mi \<le> 59 \<and> se \<le> 59)"

definition isoDateValue :: dateParser where
  "isoDateValue s =
     (if \<not> matchClasses isoPattern s then None
      else
        let y = decimalValue (take 4 s); mo = decimalValue (take 2 (drop 5 s));
            d = decimalValue (take 2 (drop 8 s)); h = decimalValue (take 2 (drop 11 s));
            mi = decimalValue (take 2 (drop 14 s)); se = decimalValue (take 2 (drop 17 s))
        in if 1 \<le> mo \<and> mo \<le> 12 \<and> 1 \<le> d \<and> d \<le> daysInMonth y mo
              \<and> (h \<le> 23 \<or> (h = 24 \<and> mi = 0 \<and> se = 0)) \<and> mi \<le> 59 \<and> se \<le> 59
           then Some ((((daysFromCivil y mo d * 24 + h) * 60 + mi) * 60 + se) * 1000)
           else None)"

section \<open>Time entries and durations\<close>

text \<open>
  A number as the renderer sees it: finite (an exact rational stands for the double),
  \<^verbatim>\<open>NaN\<close> or an infinity.
\<close>

datatype jsnumber = Finite rat | NaN | PosInfinity | NegInfinity

text \<open>
  An entry of the JSON envelope, as the extractor writes it and the parser reads it; absent
  fields are \<open>None\<close>.
\<close>

datatype rawEntry =
  RawEntry (rawName: "jsstring option") (rawStartTime: "jsstring option")
    (rawEndTime: "jsstring option") (rawLevel: "nat option") (rawSubEntries: "rawEntry list option")

text \<open>\<^verbatim>\<open>TimeEntry\<close> after flattening.\<close>

record timeEntry =
  name :: "jsstring option"
  startTime :: "jsstring option"
  endTime :: "jsstring option"
  level :: "nat option"
  duration :: "jsnumber option"

text \<open>\<^verbatim>\<open>!s\<close> for a value that is a string, \<^verbatim>\<open>null\<close> or \<^verbatim>\<open>undefined\<close>.\<close>

definition falsy :: "jsstring option \<Rightarrow> bool" where
  "falsy s \<longleftrightarrow> s = None \<or> s = Some []"

text \<open>\<^verbatim>\<open>calculateEntryDuration\<close> and \<^verbatim>\<open>calculateTotalHours\<close> of the invoice generator.\<close>

definition calculateEntryDuration :: "dateParser \<Rightarrow> timeEntry \<Rightarrow> rat" where
  "calculateEntryDuration dateValue entry =
     (if falsy (startTime entry) \<or> falsy (endTime entry) then 0
      else
        case (startTime entry, endTime entry) of
          (Some s, Some e) \<Rightarrow>
            (case (dateValue s, dateValue e) of
               (Some start, Some end) \<Rightarrow>
                 (let diffMs = end - start;
                      diffHours = of_int diffMs / (1000 * 60 * 60)
                  in max 0 (min diffHours (24 * 365)))
             | _ \<Rightarrow> 0)
        | _ \<Rightarrow> 0)"

definition calculateTotalHours :: "dateParser \<Rightarrow> timeEntry list \<Rightarrow> rat" where
  "calculateTotalHours dateValue entries =
     foldl (\<lambda>total entry. total + calculateEntryDuration dateValue entry) 0 entries"

section \<open>Table extractor (plugin main file)\<close>

text \<open>
  The rendered table as the extractor reads it: a row is the list of its \<^verbatim>\<open>td\<close> cells, and
  of a cell only its first \<^verbatim>\<open>span\<close> matters (\<open>None\<close> when \<^verbatim>\<open>querySelector\<close> finds
  none), with its text and its \<^verbatim>\<open>style.marginLeft\<close>.
\<close>

record span =
  textContent :: jsstring
  marginLeft :: jsstring

type_synonym cell = "span option"

definition isControl :: "nat \<Rightarrow> bool" where
  "isControl c \<longleftrightarrow> c \<le> 31 \<or> (127 \<le> c \<and> c \<le> 159)"

definition sanitizeText :: "jsstring \<Rightarrow> jsstring" where
  "sanitizeText text =
     (if text = [] then []
      else take 500 (filter (\<lambda>c. c \<noteq> 60 \<and> c \<noteq> 62) (filter (\<lambda>c. \<not> isControl c) text)))"

text \<open>\<^verbatim>\<open>s.replace(pat, rep)\<close> for a string pattern: the first occurrence only.\<close>

fun replaceFirst :: "jsstring \<Rightarrow> jsstring \<Rightarrow> jsstring \<Rightarrow> jsstring" where
  "replaceFirst pat rep [] = (if pat = [] then rep else [])"
| "replaceFirst pat rep (c # cs) =
     (if take (length pat) (c # cs) = pat then rep @ drop (length pat) (c # cs)
      else c # replaceFirst pat rep cs)"

text \<open>The body of the loop for one row with at least four cells: the entry it pushes.\<close>

definition rowEntry :: "dateParser \<Rightarrow> cell list \<Rightarrow> rawEntry" where
  "rowEntry dateValue cells =
     (let nameSpan = cells ! 0;
          name = sanitizeText
                   (case nameSpan of
                      None \<Rightarrow> js ''Unknown Task''
                    | Some sp \<Rightarrow>
                        if trim (textContent sp) = [] then js ''Unknown Task''
                        else trim (textContent sp));
          marginLeft = (case nameSpan of
                          None \<Rightarrow> js ''0em''
                        | Some sp \<Rightarrow> if marginLeft sp = [] then js ''0em'' else marginLeft sp);
          level = min (max (case parseInt (replaceFirst (js ''em'') [] marginLeft) of
                              None \<Rightarrow> 0
                            | Some n \<Rightarrow> n) 0) 10;
          startSpan = cells ! 1;
          startTimeText = map_option (\<lambda>sp. trim (textContent sp)) startSpan;
          endSpan = cells ! 2;
          endTimeText = map_option (\<lambda>sp. trim (textContent sp)) endSpan;
          startTime = parseTimeTrackerDate dateValue startTimeText;
          endTime = parseTimeTrackerDate dateValue endTimeText
      in RawEntry (Some name) startTime endTime (Some (nat level)) None)"

text \<open>
  The loop \<^verbatim>\<open>for (let i = 1; i < Math.min(rows.length, 1001); i++)\<close> with the array
  \<^verbatim>\<open>entries\<close> it fills.
\<close>

function extractLoop :: "dateParser \<Rightarrow> cell list list \<Rightarrow> nat \<Rightarrow> rawEntry list \<Rightarrow> rawEntry list" where
  "extractLoop dateValue rows i entries =
     (if i < min (length rows) 1001 then
        (let cells = rows ! i in
         if length cells \<ge> 4
         then extractLoop dateValue rows (i + 1) (entries @ [rowEntry dateValue cells])
         else extractLoop dateValue rows (i + 1) entries)
      else entries)"
  by pat_completeness auto
termination
  by (relation "measure (\<lambda>(dateValue, rows, i, entries). min (length rows) 1001 - i)") auto

declare extractLoop.simps [simp del]

text \<open>
  \<^verbatim>\<open>extractDataFromTable\<close>. The result stands for the JSON text
  \<^verbatim>\<open>JSON.stringify({ entries })\<close> by the list it serialises; \<open>None\<close> is \<^verbatim>\<open>null\<close>.
\<close>

definition extractDataFromTable :: "dateParser \<Rightarrow> cell list list \<Rightarrow> rawEntry list option" where
  "extractDataFromTable dateValue rows =
     (let entries = extractLoop dateValue rows 1 []
      in if length entries > 0 then Some entries else None)"

section \<open>Entry tree processor (time tracker parser)\<close>

text \<open>\<^verbatim>\<open>calculateDuration\<close> of the parser: no clamping, and \<^verbatim>\<open>NaN\<close> for an invalid date.\<close>

definition calculateDuration :: "dateParser \<Rightarrow> jsstring option \<Rightarrow> jsstring option \<Rightarrow> jsnumber" where
  "calculateDuration dateValue startTime' endTime' =
     (if falsy startTime' \<or> falsy endTime' then Finite 0
      else
        case (startTime', endTime') of
          (Some s, Some e) \<Rightarrow>
            (case (dateValue s, dateValue e) of
               (Some start, Some end) \<Rightarrow> Finite (of_int (end - start) / (1000 * 60 * 60))
             | _ \<Rightarrow> NaN)
        | _ \<Rightarrow> Finite 0)"

text \<open>
  \<^verbatim>\<open>processEntries\<close>: the \<^verbatim>\<open>for\<close> loop over the entries with the array
  \<^verbatim>\<open>processedEntries\<close> as accumulator; the recursive call on the sub-entries starts a
  fresh array, which is then pushed onto the accumulator.
\<close>

fun processLoop :: "dateParser \<Rightarrow> rawEntry list \<Rightarrow> nat \<Rightarrow> timeEntry list \<Rightarrow> timeEntry list" where
  "processLoop dateValue [] lvl processedEntries = processedEntries"
| "processLoop dateValue (RawEntry nm st en lv subs # rest) lvl processedEntries =
     (let processedEntry = \<lparr>name = nm, startTime = st, endTime = en, level = Some lvl,
                             duration = Some (calculateDuration dateValue st en)\<rparr>;
          pushed = processedEntries @ [processedEntry];
          withSubs = (case subs of
                        Some subEntries \<Rightarrow>
                          if length subEntries > 0
                          then pushed @ processLoop dateValue subEntries (lvl + 1) []
                          else pushed
                      | None \<Rightarrow> pushed)
      in processLoop dateValue rest lvl withSubs)"

definition processEntries :: "dateParser \<Rightarrow> rawEntry list \<Rightarrow> nat \<Rightarrow> timeEntry list" where
  "processEntries dateValue entries lvl = processLoop dateValue entries lvl []"

text \<open>
  The claim's description of the flattening: pre-order, each entry annotated with its depth and
  followed at once by the flattening of its sub-entries one level deeper.
\<close>

fun preorder :: "dateParser \<Rightarrow> nat \<Rightarrow> rawEntry list \<Rightarrow> timeEntry list" where
  "preorder dateValue depth [] = []"
| "preorder dateValue depth (RawEntry nm st en lv subs # rest) =
     \<lparr>name = nm, startTime = st, endTime = en, level = Some depth,
      duration = Some (calculateDuration dateValue st en)\<rparr>
     # (case subs of None \<Rightarrow> [] | Some children \<Rightarrow> preorder dateValue (depth + 1) children)
     @ preorder dateValue depth rest"

text \<open>The number of entries in a forest, sub-entries included.\<close>

fun countEntries :: "rawEntry list \<Rightarrow> nat" where
  "countEntries [] = 0"
| "countEntries (RawEntry nm st en lv subs # rest) =
     1 + (case subs of None \<Rightarrow> 0 | Some children \<Rightarrow> countEntries children) + countEntries rest"

section \<open>Invoice options (options modal)\<close>

record invoiceOptions =
  flatRateAmount :: "jsnumber option"




section \<open>Document composition (invoice generator)\<close>

text \<open>
  The settings the generator reads. The hourly rate is a finite number; rationals stand for
  doubles, as in the durations.
\<close>

record invoiceSettings =
  companyName :: jsstring
  companyAddress :: jsstring
  companyLogo :: jsstring
  hourlyRate :: rat
  billingTerms :: jsstring
  memo :: jsstring
  invoiceDirectory :: jsstring

text \<open>
  What the engine contributes to the layout besides \<^verbatim>\<open>Date\<close>: number and date
  formatting, and the height of the table that the table plugin reports in
  \<^verbatim>\<open>doc.lastAutoTable.finalY\<close>.
\<close>

record platform =
  engineDate :: dateParser
  toFixed2 :: "jsnumber \<Rightarrow> jsstring"
  toLocaleShortDate :: "int \<Rightarrow> jsstring"
  toLocaleShortTime :: "int \<Rightarrow> jsstring"
  toLocaleDateString :: "clock \<Rightarrow> jsstring"
  autoTableFinalY :: "jsstring list list \<Rightarrow> rat"

text \<open>
  What one function reads from its surroundings while it runs: the clock and the next value
  of \<^verbatim>\<open>Math.random()\<close>.
\<close>

record ambient =
  clockNow :: clock
  mathRandom :: rat

text \<open>The calls made on the document, in order.\<close>

datatype alignment = AlignLeft | AlignRight

datatype docOp =
    SetFontSize nat
  | Text jsstring rat rat alignment
  | AutoTable "jsstring list" "jsstring list list"
  | Line rat rat rat rat

definition escapeText :: "jsstring \<Rightarrow> jsstring" where
  "escapeText text =
     (if text = [] then [] else take 1000 (filter (\<lambda>c. \<not> isControl c) text))"

text \<open>The local function \<^verbatim>\<open>formatTime\<close> of the row callback.\<close>

definition formatTime :: "platform \<Rightarrow> jsstring option \<Rightarrow> jsstring" where
  "formatTime P timeString =
     (if falsy timeString then js ''-''
      else
        case timeString of
          None \<Rightarrow> js ''-''
        | Some s \<Rightarrow>
            (case engineDate P s of
               None \<Rightarrow> js ''-''
             | Some t \<Rightarrow> toLocaleShortDate P t @ js '' '' @ toLocaleShortTime P t))"

text \<open>
  The callback of \<^verbatim>\<open>entries.map\<close>: one table row. A missing name concatenates as
  \<^verbatim>\<open>undefined\<close>.
\<close>

definition tableRow :: "platform \<Rightarrow> invoiceSettings \<Rightarrow> bool \<Rightarrow> timeEntry \<Rightarrow> jsstring list" where
  "tableRow P settings isFlateRate entry =
     (let duration = calculateEntryDuration (engineDate P) entry;
          indent = concat (replicate (min (case level entry of None \<Rightarrow> 0 | Some l \<Rightarrow> l) 10)
                             (js ''  ''));
          label = indent @ (case name entry of None \<Rightarrow> js ''undefined'' | Some n \<Rightarrow> n)
      in if isFlateRate then
           [escapeText label, formatTime P (startTime entry), formatTime P (endTime entry),
            toFixed2 P (Finite duration), js ''-'', js ''-'']
         else
           (let amount = duration * hourlyRate settings
            in [escapeText label, formatTime P (startTime entry), formatTime P (endTime entry),
                toFixed2 P (Finite duration), toFixed2 P (Finite (hourlyRate settings)),
                toFixed2 P (Finite amount)]))"

text \<open>\<^verbatim>\<open>options?.flatRateAmount\<close>: \<open>None\<close> is \<^verbatim>\<open>undefined\<close>.\<close>

definition optionalFlatRate :: "invoiceOptions option \<Rightarrow> jsnumber option" where
  "optionalFlatRate options = (case options of None \<Rightarrow> None | Some opts \<Rightarrow> flatRateAmount opts)"

definition textLines :: "jsstring \<Rightarrow> rat \<Rightarrow> docOp list" where
  "textLines text y0 =
     map (\<lambda>(index, line). Text (escapeText line) 20 (y0 + of_nat index * 5) AlignLeft)
       (enumerate 0 (splitOn 10 text))"

text \<open>
  \<^verbatim>\<open>addPDFContent\<close>: the calls it makes on the document. The style arguments of the table
  are constants of the source and are left out.
\<close>

definition addPDFContent ::
    "platform \<Rightarrow> invoiceSettings \<Rightarrow> ambient \<Rightarrow> timeEntry list \<Rightarrow> invoiceOptions option \<Rightarrow> docOp list" where
  "addPDFContent P settings amb entries options =
     (let totalHours = calculateTotalHours (engineDate P) entries;
          isFlateRate = (optionalFlatRate options \<noteq> None);
          subtotal = (case optionalFlatRate options of
                        Some flat \<Rightarrow> flat
                      | None \<Rightarrow> Finite (totalHours * hourlyRate settings));
          invoiceNumber = generateInvoiceNumber (clockNow amb) (mathRandom amb);
          invoiceDate = toLocaleDateString P (clockNow amb);
          tableData = map (tableRow P settings isFlateRate) entries;
          finalY = autoTableFinalY P tableData + 20;
          summaryStartY = finalY;
          summaryRightX = 190;
          notesY = summaryStartY + 35;
          memoLines = splitOn 10 (memo settings);
          notesY' = (if memo settings \<noteq> [] then notesY + (7 + of_nat (length memoLines) * 5 + 10)
                     else notesY)
      in [SetFontSize 24,
          Text (js ''INVOICE'') 200 30 AlignRight,
          SetFontSize 16,
          Text (escapeText (if companyName settings = [] then js ''Your Company''
                            else companyName settings)) 20 30 AlignLeft]
         @ (if companyAddress settings \<noteq> []
            then SetFontSize 10 # textLines (companyAddress settings) 40
            else [])
         @ [SetFontSize 10,
            Text (js ''Invoice #: '' @ escapeText invoiceNumber) 200 45 AlignRight,
            Text (js ''Date: '' @ invoiceDate) 200 52 AlignRight,
            AutoTable [js ''Task'', js ''Start Time'', js ''End Time'', js ''Hours'', js ''Rate'',
                       js ''Amount''] tableData,
            SetFontSize 10,
            Text (js ''Total Hours:'') 140 summaryStartY AlignLeft,
            Text (toFixed2 P (Finite totalHours)) summaryRightX summaryStartY AlignRight]
         @ (case optionalFlatRate options of
              Some flat \<Rightarrow>
                [Text (js ''Project Rate:'') 140 (summaryStartY + 7) AlignLeft,
                 Text (toFixed2 P flat) summaryRightX (summaryStartY + 7) AlignRight]
            | None \<Rightarrow>
                [Text (js ''Hourly Rate:'') 140 (summaryStartY + 7) AlignLeft,
                 Text (toFixed2 P (Finite (hourlyRate settings))) summaryRightX (summaryStartY + 7)
                   AlignRight])
         @ [Line 140 (summaryStartY + 12) summaryRightX (summaryStartY + 12),
            SetFontSize 12,
            Text (js ''Total Amount:'') 140 (summaryStartY + 20) AlignLeft,
            Text (toFixed2 P subtotal) summaryRightX (summaryStartY + 20) AlignRight]
         @ (if memo settings \<noteq> []
            then [SetFontSize 12, Text (js ''Notes:'') 20 notesY AlignLeft, SetFontSize 10]
                 @ textLines (memo settings) (notesY + 7)
            else [])
         @ [SetFontSize 10,
            Text (js ''Payment Terms: '' @ escapeText (billingTerms settings)) 20 notesY' AlignLeft,
            Text (js ''Thank you for your business!'') 20 (notesY' + 7) AlignLeft])"

section \<open>Invoice generation against the host (invoice generator)\<close>

text \<open>
  The host application and the PDF library are outside the plugin. They are a parameter: a record
  of operations on a state \<open>'w\<close> of the host (vault, notices, open files, console), with
  \<open>'b\<close> the type of binary buffers. An operation that can throw returns \<open>Inl message\<close> for an
  error with that message and leaves the state as it was. \<open>jsPDF\<close> stands for the library as a
  whole: loading it, the calls made on the document and \<^verbatim>\<open>doc.output('arraybuffer')\<close>; it
  answers \<open>Inl message\<close> when any of these throws.
\<close>

record ('w, 'b) host =
  jsPDF :: "docOp list \<Rightarrow> jsstring + 'b"
  momentFormat :: "clock \<Rightarrow> jsstring \<Rightarrow> jsstring"
  normalizePath :: "jsstring \<Rightarrow> jsstring"
  adapterExists :: "'w \<Rightarrow> jsstring \<Rightarrow> bool"
  createFolder :: "'w \<Rightarrow> jsstring \<Rightarrow> jsstring + 'w"
  createBinary :: "'w \<Rightarrow> jsstring \<Rightarrow> 'b \<Rightarrow> jsstring + 'w"
  showNotice :: "'w \<Rightarrow> jsstring \<Rightarrow> 'w"
  openFile :: "'w \<Rightarrow> jsstring \<Rightarrow> jsstring + 'w"
  consoleError :: "'w \<Rightarrow> jsstring \<Rightarrow> 'w"

text \<open>\<^verbatim>\<open>s.includes(pat)\<close> and \<^verbatim>\<open>parts.join(sep)\<close>.\<close>

fun includes_str :: "jsstring \<Rightarrow> jsstring \<Rightarrow> bool" where
  "includes_str [] pat = (pat = [])"
| "includes_str (c # cs) pat = (take (length pat) (c # cs) = pat \<or> includes_str cs pat)"

fun joinWith :: "jsstring \<Rightarrow> jsstring list \<Rightarrow> jsstring" where
  "joinWith sep [] = []"
| "joinWith sep [x] = x"
| "joinWith sep (x # y # ys) = x @ sep @ joinWith sep (y # ys)"

text \<open>\<^verbatim>\<open>generatePDF\<close>: the \<^verbatim>\<open>catch\<close> wraps the message of whatever the layout threw.\<close>

definition generatePDF ::
    "('w, 'b) host \<Rightarrow> platform \<Rightarrow> invoiceSettings \<Rightarrow> ambient \<Rightarrow> timeEntry list
      \<Rightarrow> invoiceOptions option \<Rightarrow> jsstring + 'b" where
  "generatePDF H P settings amb entries options =
     (case jsPDF H (addPDFContent P settings amb entries options) of
        Inr pdfBlob \<Rightarrow> Inr pdfBlob
      | Inl message \<Rightarrow> Inl (js ''PDF generation failed: '' @ message))"

definition generateFilePath :: "('w, 'b) host \<Rightarrow> invoiceSettings \<Rightarrow> ambient \<Rightarrow> jsstring" where
  "generateFilePath H settings amb =
     (let directory = (if invoiceDirectory settings = [] then js ''Invoices/YYYY/MM''
                       else invoiceDirectory settings);
          directory' = momentFormat H (clockNow amb) directory;
          invoiceNumber = generateInvoiceNumber (clockNow amb) (mathRandom amb);
          companyName' = (if companyName settings = [] then js ''Company''
                          else companyName settings);
          safeCompanyName = sanitizeFilename companyName';
          filename = safeCompanyName @ js ''-invoice-'' @ invoiceNumber @ js ''.pdf'';
          fullPath = directory' @ js ''/'' @ filename
      in normalizePath H fullPath)"

text \<open>
  \<^verbatim>\<open>createDirectoryRecursive\<close>: the loop over the path components, with the path built so
  far. The result is the message of the error thrown, if any, and the state of the host.
\<close>

fun createLoop :: "('w, 'b) host \<Rightarrow> jsstring list \<Rightarrow> jsstring \<Rightarrow> 'w \<Rightarrow> jsstring option \<times> 'w" where
  "createLoop H [] currentPath w = (None, w)"
| "createLoop H (part # parts) currentPath w =
     (let currentPath' = (if currentPath \<noteq> [] then currentPath @ js ''/'' @ part else part);
          normalizedPath = normalizePath H currentPath'
      in if \<not> adapterExists H w normalizedPath then
           (case createFolder H w normalizedPath of
              Inr w' \<Rightarrow> createLoop H parts currentPath' w'
            | Inl message \<Rightarrow>
                if \<not> includes_str message (js ''already exists'') then (Some message, w)
                else createLoop H parts currentPath' w)
         else createLoop H parts currentPath' w)"

definition createDirectoryRecursive :: "('w, 'b) host \<Rightarrow> jsstring \<Rightarrow> 'w \<Rightarrow> jsstring option \<times> 'w" where
  "createDirectoryRecursive H dirPath w =
     createLoop H (filter (\<lambda>part. length part > 0) (splitOn 47 dirPath)) [] w"

definition ensureDirectoryExists :: "('w, 'b) host \<Rightarrow> jsstring \<Rightarrow> 'w \<Rightarrow> jsstring option \<times> 'w" where
  "ensureDirectoryExists H filePath w =
     (let pathParts = butlast (splitOn 47 filePath)
      in if length pathParts = 0 then (None, w)
         else
           (let dirPath = normalizePath H (joinWith (js ''/'') pathParts)
            in if adapterExists H w dirPath then (None, w)
               else
                 (case createDirectoryRecursive H dirPath w of
                    (None, w') \<Rightarrow> (None, w')
                  | (Some message, w') \<Rightarrow>
                      if \<not> includes_str message (js ''already exists'') then (Some message, w')
                      else (None, w'))))"

text \<open>
  \<^verbatim>\<open>generateInvoice\<close>. \<open>ambPdf\<close> is what \<^verbatim>\<open>addPDFContent\<close> reads from clock and random
  source, \<open>ambPath\<close> what \<^verbatim>\<open>generateFilePath\<close> reads afterwards. The result is the message
  of the error thrown (\<open>None\<close> when the promise resolves) and the state of the host.
\<close>

definition rethrow :: "('w, 'b) host \<Rightarrow> jsstring \<Rightarrow> 'w \<Rightarrow> jsstring option \<times> 'w" where
  "rethrow H message w =
     (Some (js ''Failed to generate invoice: '' @ message), consoleError H w message)"

definition generateInvoice ::
    "('w, 'b) host \<Rightarrow> platform \<Rightarrow> invoiceSettings \<Rightarrow> ambient \<Rightarrow> ambient \<Rightarrow> timeEntry list
      \<Rightarrow> invoiceOptions option \<Rightarrow> 'w \<Rightarrow> jsstring option \<times> 'w" where
  "generateInvoice H P settings ambPdf ambPath entries options w =
     (case generatePDF H P settings ambPdf entries options of
        Inl message \<Rightarrow> rethrow H message w
      | Inr pdfBuffer \<Rightarrow>
          (let filePath = generateFilePath H settings ambPath
           in case ensureDirectoryExists H filePath w of
                (Some message, w1) \<Rightarrow> rethrow H message w1
              | (None, w1) \<Rightarrow>
                  (case createBinary H w1 filePath pdfBuffer of
                     Inl message \<Rightarrow> rethrow H message w1
                   | Inr w2 \<Rightarrow>
                       (let w3 = showNotice H w2 (js ''Invoice saved to: '' @ filePath)
                        in case openFile H w3 filePath of
                             Inl message \<Rightarrow> rethrow H message w3
                           | Inr w4 \<Rightarrow> (None, w4)))))"

section \<open>A host and an engine in memory\<close>

text \<open>
  One host and one engine to evaluate the definitions on concrete inputs. The vault is a list
  of folders and a list of files; creating what exists throws. A buffer is the list of the
  calls made on the document, so that a saved file shows what was drawn. The path formatter
  expands the first \<^verbatim>\<open>YYYY\<close> and the first \<^verbatim>\<open>MM\<close>; \<^verbatim>\<open>toFixed(2)\<close> rounds the exact
  rational; the locale formats print the day number and the millisecond of the day.
\<close>

record memoryVault =
  folders :: "jsstring list"
  files :: "(jsstring \<times> docOp list) list"
  notices :: "jsstring list"
  opened :: "jsstring list"
  consoleErrors :: "jsstring list"

definition emptyVault :: memoryVault where
  "emptyVault = \<lparr>folders = [], files = [], notices = [], opened = [], consoleErrors = []\<rparr>"

definition memoryExists :: "memoryVault \<Rightarrow> jsstring \<Rightarrow> bool" where
  "memoryExists w p \<longleftrightarrow> p \<in> set (folders w) \<or> p \<in> set (map fst (files w))"

definition memoryHost :: "(docOp list \<Rightarrow> jsstring + docOp list) \<Rightarrow> (memoryVault, docOp list) host" where
  "memoryHost library =
     \<lparr>jsPDF = library,
      momentFormat = (\<lambda>c directory.
         replaceFirst (js ''MM'') (padStart2 (numToString (int (month0 c) + 1)))
           (replaceFirst (js ''YYYY'') (numToString (fullYear c)) directory)),
      normalizePath = (\<lambda>p. p),
      adapterExists = memoryExists,
      createFolder = (\<lambda>w p. if memoryExists w p then Inl (js ''Folder already exists.'')
                             else Inr (w\<lparr>folders := folders w @ [p]\<rparr>)),
      createBinary = (\<lambda>w p b. if memoryExists w p then Inl (js ''File already exists.'')
                               else Inr (w\<lparr>files := files w @ [(p, b)]\<rparr>)),
      showNotice = (\<lambda>w text. w\<lparr>notices := notices w @ [text]\<rparr>),
      openFile = (\<lambda>w p. Inr (w\<lparr>opened := opened w @ [p]\<rparr>)),
      consoleError = (\<lambda>w text. w\<lparr>consoleErrors := consoleErrors w @ [text]\<rparr>)\<rparr>"

definition fixed2 :: "jsnumber \<Rightarrow> jsstring" where
  "fixed2 x =
     (case x of
        NaN \<Rightarrow> js ''NaN''
      | PosInfinity \<Rightarrow> js ''Infinity''
      | NegInfinity \<Rightarrow> js ''-Infinity''
      | Finite q \<Rightarrow>
          (let n = nat \<lfloor>\<bar>q\<bar> * 100 + 1 / 2\<rfloor>
           in (if q < 0 then js ''-'' else []) @ digitsOf (n div 100) @ js ''.''
                @ padStart2 (digitsOf (n mod 100))))"

definition memoryPlatform :: platform where
  "memoryPlatform =
     \<lparr>engineDate = isoDateValue,
      toFixed2 = fixed2,
      toLocaleShortDate = (\<lambda>t. js ''day '' @ numToString (t div 86400000)),
      toLocaleShortTime = (\<lambda>t. js ''ms '' @ numToString (t mod 86400000)),
      toLocaleDateString = (\<lambda>c. numToString (int (month0 c) + 1) @ js ''/''
                                @ numToString (int (dayOfMonth c)) @ js ''/''
                                @ numToString (fullYear c)),
      autoTableFinalY = (\<lambda>rows. 80 + 10 * of_nat (length rows))\<rparr>"

definition acmeSettings :: invoiceSettings where
  "acmeSettings =
     \<lparr>companyName = js ''Acme'', companyAddress = [], companyLogo = [], hourlyRate = 100,
      billingTerms = js ''Net 30'', memo = [], invoiceDirectory = js ''Invoices/YYYY/MM''\<rparr>"

section \<open>Properties of the string and number helpers\<close>

lemma digitsOf_digits: "list_all isDigit (digitsOf n)"
proof (induction n rule: digitsOf.induct)
  case (1 n)
  show ?case
  proof (cases "n < 10")
    case True
    then show ?thesis by (subst digitsOf.simps) (simp add: isDigit_def)
  next
    case False
    have "n mod 10 < 10" by simp
    then have "isDigit (48 + n mod 10)" by (simp add: isDigit_def)
    with False 1 show ?thesis by (subst digitsOf.simps) simp
  qed
qed

lemma digitsOf_length:
  "0 < k \<Longrightarrow> n < 10 ^ k \<Longrightarrow> length (digitsOf n) \<le> k \<and> digitsOf n \<noteq> []"
proof (induction n arbitrary: k rule: digitsOf.induct)
  case (1 n)
  show ?case
  proof (cases "n < 10")
    case True
    with 1 show ?thesis by (subst (1 2) digitsOf.simps) auto
  next
    case False
    then obtain j where k: "k = Suc j" using 1(2) by (cases k) auto
    from False 1(3) k have "0 < j" by (cases j) auto
    moreover from 1(3) k have "n div 10 < 10 ^ j" by (simp add: less_mult_imp_div_less mult.commute)
    ultimately have "length (digitsOf (n div 10)) \<le> j" using 1(1)[OF False] by blast
    with False k show ?thesis by (subst (1 2) digitsOf.simps) auto
  qed
qed

lemma padStart2_two_digits:
  assumes "n < 100"
  shows "length (padStart2 (digitsOf n)) = 2 \<and> list_all isDigit (padStart2 (digitsOf n))"
proof -
  have "length (digitsOf n) \<le> 2 \<and> digitsOf n \<noteq> []"
    using digitsOf_length[of 2 n] assms by simp
  then show ?thesis
    using digitsOf_digits[of n] by (auto simp: padStart2_def isDigit_def list_all_iff)
qed

lemma numToString_nonneg: "0 \<le> i \<Longrightarrow> numToString i = digitsOf (nat i)"
  by (simp add: numToString_def)

lemma random_floor_range:
  fixes r :: rat
  assumes "0 \<le> r" "r < 1"
  shows "0 \<le> \<lfloor>r * 10000\<rfloor> \<and> \<lfloor>r * 10000\<rfloor> \<le> 9999"
proof -
  have "r * 10000 < 10000" using assms by simp
  then have "\<lfloor>r * 10000\<rfloor> < 10000" by (simp add: floor_less_iff)
  moreover have "0 \<le> \<lfloor>r * 10000\<rfloor>" using assms by simp
  ultimately show ?thesis by simp
qed

section \<open>Invoice number (C7)\<close>

text \<open>
  C7 (as amended): every invoice number is the current year, the month and the day of the month
  padded to two digits, and a random integer, joined by hyphens. The random integer is
  \<open>\<lfloor>r * 10000\<rfloor>\<close> for the draw \<open>0 \<le> r < 1\<close>, so it lies in \<open>[0, 10000)\<close>: every value from 0
  to 9999 inclusive can occur; it is printed as its decimal digits.
\<close>

theorem generateInvoiceNumber_format:
  assumes "0 \<le> r" and "r < 1" and "0 \<le> fullYear now"
    and "month0 now < 12" and "dayOfMonth now \<le> 31"
  shows "\<exists>mm dd n.
           generateInvoiceNumber now r =
             digitsOf (nat (fullYear now)) @ js ''-'' @ mm @ js ''-'' @ dd @ js ''-'' @ digitsOf n
         \<and> mm = padStart2 (digitsOf (month0 now + 1)) \<and> length mm = 2 \<and> list_all isDigit mm
         \<and> dd = padStart2 (digitsOf (dayOfMonth now)) \<and> length dd = 2 \<and> list_all isDigit dd
         \<and> int n = \<lfloor>r * 10000\<rfloor> \<and> n \<le> 9999"
proof -
  let ?n = "nat \<lfloor>r * 10000\<rfloor>"
  have fl: "0 \<le> \<lfloor>r * 10000\<rfloor> \<and> \<lfloor>r * 10000\<rfloor> \<le> 9999"
    using random_floor_range assms(1,2) by blast
  have m: "length (padStart2 (digitsOf (month0 now + 1))) = 2
           \<and> list_all isDigit (padStart2 (digitsOf (month0 now + 1)))"
    using padStart2_two_digits[of "month0 now + 1"] assms(4) by simp
  have d: "length (padStart2 (digitsOf (dayOfMonth now))) = 2
           \<and> list_all isDigit (padStart2 (digitsOf (dayOfMonth now)))"
    using padStart2_two_digits[of "dayOfMonth now"] assms(5) by simp
  have eq: "generateInvoiceNumber now r =
      digitsOf (nat (fullYear now)) @ js ''-'' @ padStart2 (digitsOf (month0 now + 1)) @ js ''-''
        @ padStart2 (digitsOf (dayOfMonth now)) @ js ''-'' @ digitsOf ?n"
    using fl assms(3)
    by (simp add: generateInvoiceNumber_def Let_def numToString_nonneg nat_add_distrib)
  have "int ?n = \<lfloor>r * 10000\<rfloor> \<and> ?n \<le> 9999" using fl by linarith
  with eq m d show ?thesis by blast
qed

theorem generateInvoiceNumber_format_witness:
  "(0::rat) \<le> 1 / 2 \<and> (1 / 2 :: rat) < 1 \<and>
   (\<exists>mm dd n.
     generateInvoiceNumber \<lparr>fullYear = 2024, month0 = 0, dayOfMonth = 5\<rparr> (1 / 2) =
       js ''2024-'' @ mm @ js ''-'' @ dd @ js ''-'' @ digitsOf n
     \<and> length mm = 2 \<and> length dd = 2 \<and> n \<le> 9999)"
proof -
  let ?c = "\<lparr>fullYear = 2024, month0 = 0, dayOfMonth = 5\<rparr>"
  have y: "digitsOf (nat (fullYear ?c)) @ js ''-'' = js ''2024-''"
    by (simp add: digitsOf.simps js_def)
  obtain mm dd n where
    "generateInvoiceNumber ?c (1 / 2) =
       digitsOf (nat (fullYear ?c)) @ js ''-'' @ mm @ js ''-'' @ dd @ js ''-'' @ digitsOf n"
    and "length mm = 2" and "length dd = 2" and "n \<le> 9999"
    using generateInvoiceNumber_format[of "1 / 2" ?c] by auto
  then have "generateInvoiceNumber ?c (1 / 2) = js ''2024-'' @ mm @ js ''-'' @ dd @ js ''-'' @ digitsOf n
     \<and> length mm = 2 \<and> length dd = 2 \<and> n \<le> 9999"
    using y by (metis append_assoc)
  moreover have "(0::rat) \<le> 1 / 2 \<and> (1 / 2 :: rat) < 1" by simp
  ultimately show ?thesis by blast
qed

text \<open>
  C7 as stated fails: the draw \<open>r = 0.9999\<close> gives the suffix 9999, which the claim excludes.
\<close>

theorem generateInvoiceNumber_reaches_9999:
  "(0::rat) \<le> 9999 / 10000 \<and> (9999 / 10000 :: rat) < 1 \<and>
   generateInvoiceNumber \<lparr>fullYear = 2024, month0 = 0, dayOfMonth = 5\<rparr> (9999 / 10000)
     = js ''2024-01-05-9999''"
  by (simp add: generateInvoiceNumber_def numToString_def padStart2_def js_def digitsOf.simps Let_def)

section \<open>File name sanitisation (C8)\<close>

text \<open>
  C8: the sanitised company name should have no trailing hyphen. The source strips the hyphens
  before it truncates to 50 characters, so a name whose 50th character becomes a hyphen keeps
  it: 49 letters, a space and one more letter give 49 letters followed by a hyphen.
\<close>

theorem sanitizeFilename_trailing_hyphen:
  "sanitizeFilename (js ''aaaaaaaaaaaaaaaaaaaaaaaaaaaaaaaaaaaaaaaaaaaaaaaaa b'')
     = js ''aaaaaaaaaaaaaaaaaaaaaaaaaaaaaaaaaaaaaaaaaaaaaaaaa-''"
  by (simp add: sanitizeFilename_def js_def isUnsafeChar_def isWhiteSpace_def stripHyphens_def)

section \<open>Properties of splitting, patterns and digits\<close>

lemma digit_not_space: "isDigit c \<Longrightarrow> \<not> isWhiteSpace c"
  by (auto simp: isDigit_def isWhiteSpace_def)

lemma dropWhile_all_left: "(\<forall>x \<in> set (dropWhile P s). P x) \<longleftrightarrow> (\<forall>x \<in> set s. P x)"
  by (induction s) auto

lemma trim_empty_iff: "trim s = [] \<longleftrightarrow> (\<forall>c \<in> set s. isWhiteSpace c)"
  by (simp add: trim_def dropWhile_eq_Nil_conv dropWhile_all_left)

lemma splitOn_nonempty: "splitOn c s \<noteq> []"
  by (induction s) (auto split: list.splits)

lemma splitOn_no_sep: "c \<notin> set a \<Longrightarrow> splitOn c a = [a]"
  by (induction a) auto

lemma splitOn_sep: "c \<notin> set a \<Longrightarrow> splitOn c (a @ c # rest) = a # splitOn c rest"
  by (induction a) (auto split: list.splits simp: splitOn_nonempty)

lemma splitOn_two:
  "length (splitOn c s) = 2 \<Longrightarrow> s = (splitOn c s ! 0) @ c # (splitOn c s ! 1)"
proof (induction s)
  case Nil
  then show ?case by simp
next
  case (Cons x xs)
  show ?case
  proof (cases "x = c")
    case True
    with Cons.prems have len: "length (splitOn c xs) = 1" by simp
    then obtain t where t: "splitOn c xs = [t]" by (cases "splitOn c xs") auto
    have "c \<notin> set xs \<and> t = xs" using t
    proof (induction xs arbitrary: t)
      case Nil
      then show ?case by simp
    next
      case (Cons y ys)
      then show ?case by (auto split: if_splits list.splits simp: splitOn_nonempty)
    qed
    with True t show ?thesis by simp
  next
    case False
    obtain t ts where tts: "splitOn c xs = t # ts"
      using splitOn_nonempty[of c xs] by (cases "splitOn c xs") auto
    with False Cons.prems have "length (splitOn c xs) = 2" by simp
    from Cons.IH[OF this] False tts show ?thesis
      by (cases ts) auto
  qed
qed

lemma date_shape:
  assumes "matchClasses datePattern d"
  obtains y1 y2 m1 m2 d1 d2 where "d = [y1, y2, 45, m1, m2, 45, d1, d2]"
    and "isDigit y1" "isDigit y2" "isDigit m1" "isDigit m2" "isDigit d1" "isDigit d2"
  using assms
  by (auto simp: matchClasses_def datePattern_def list_all2_Cons1 lit_def js_def)

lemma time_shape:
  assumes "matchClasses timePattern t"
  obtains h1 h2 n1 n2 s1 s2 where "t = [h1, h2, 58, n1, n2, 58, s1, s2]"
    and "isDigit h1" "isDigit h2" "isDigit n1" "isDigit n2" "isDigit s1" "isDigit s2"
  using assms
  by (auto simp: matchClasses_def timePattern_def list_all2_Cons1 lit_def js_def)

lemma parseInt_two_digits:
  assumes "isDigit a" "isDigit b"
  shows "parseInt [a, b] = Some (twoDigits a b)"
  using assms
  by (auto simp: parseInt_def isDigit_def isWhiteSpace_def digitValue_def twoDigits_def Let_def)


lemma isDigit_offset: "isDigit c \<Longrightarrow> \<exists>a<10. c = 48 + a"
  by (auto simp: isDigit_def intro: exI[of _ "c - 48"])

lemma digitsOf_small: "b < 10 \<Longrightarrow> digitsOf b = [48 + b]"
  by (subst digitsOf.simps) simp

lemma digitsOf_snoc: "0 < n \<Longrightarrow> b < 10 \<Longrightarrow> digitsOf (10 * n + b) = digitsOf n @ [48 + b]"
  by (subst digitsOf.simps) simp

lemma digitsOf_hundreds:
  assumes "0 < n" "a < 10" "b < 10"
  shows "digitsOf (100 * n + (10 * a + b)) = digitsOf n @ [48 + a, 48 + b]"
proof -
  have "digitsOf (100 * n + (10 * a + b)) = digitsOf (10 * (10 * n + a) + b)"
    by (rule arg_cong[where f = digitsOf]) simp
  also have "\<dots> = digitsOf (10 * n + a) @ [48 + b]"
    using assms by (intro digitsOf_snoc) simp_all
  also have "digitsOf (10 * n + a) = digitsOf n @ [48 + a]"
    using assms by (intro digitsOf_snoc) simp_all
  finally show ?thesis by simp
qed

lemma digitsOf_century:
  assumes "a < 10" "b < 10"
  shows "digitsOf (2000 + (10 * a + b)) = [50, 48, 48 + a, 48 + b]"
    and "digitsOf (1900 + (10 * a + b)) = [49, 57, 48 + a, 48 + b]"
proof -
  have "digitsOf 20 = [50, 48]" "digitsOf 19 = [49, 57]"
    by (simp_all add: digitsOf.simps)
  then show "digitsOf (2000 + (10 * a + b)) = [50, 48, 48 + a, 48 + b]"
    and "digitsOf (1900 + (10 * a + b)) = [49, 57, 48 + a, 48 + b]"
    using digitsOf_hundreds[of 20 a b] digitsOf_hundreds[of 19 a b] assms by simp_all
qed

lemma padStart2_pair:
  assumes "a < 10" "b < 10"
  shows "padStart2 (digitsOf (10 * a + b)) = [48 + a, 48 + b]"
proof (cases "a = 0")
  case True
  with assms show ?thesis by (simp add: digitsOf_small padStart2_def)
next
  case False
  with assms show ?thesis by (simp add: digitsOf_snoc digitsOf_small padStart2_def)
qed


lemma numToString_nat: "numToString (int n) = digitsOf n"
  by (simp add: numToString_def)

lemma normalise_matching:
  assumes d: "matchClasses datePattern d" and t: "matchClasses timePattern t"
  shows "parseTimeTrackerDate D (Some (d @ 32 # t)) =
           (if 1 \<le> twoDigits (d ! 3) (d ! 4) \<and> twoDigits (d ! 3) (d ! 4) \<le> 12
               \<and> 1 \<le> twoDigits (d ! 6) (d ! 7) \<and> twoDigits (d ! 6) (d ! 7) \<le> 31
            then (let c = (if twoDigits (d ! 0) (d ! 1) < 50 then js ''20'' else js ''19'')
                              @ d @ js ''T'' @ t
                  in if D c = None then None else Some c)
            else None)"
proof -
  from d obtain y1 y2 m1 m2 d1 d2 where dd: "d = [y1, y2, 45, m1, m2, 45, d1, d2]"
    and dig: "isDigit y1" "isDigit y2" "isDigit m1" "isDigit m2" "isDigit d1" "isDigit d2"
    by (rule date_shape)
  from t obtain h1 h2 n1 n2 s1 s2 where tt: "t = [h1, h2, 58, n1, n2, 58, s1, s2]"
    and tig: "isDigit h1" "isDigit h2" "isDigit n1" "isDigit n2" "isDigit s1" "isDigit s2"
    by (rule time_shape)
  from dig obtain a1 a2 b1 b2 c1 c2 where
    off: "y1 = 48 + a1" "y2 = 48 + a2" "m1 = 48 + b1" "m2 = 48 + b2" "d1 = 48 + c1" "d2 = 48 + c2"
    and lt: "a1 < 10" "a2 < 10" "b1 < 10" "b2 < 10" "c1 < 10" "c2 < 10"
    by (meson isDigit_offset)
  have nosp: "32 \<notin> set d" "32 \<notin> set t"
    using dig tig by (auto simp: dd tt isDigit_def)
  have split1: "splitOn 32 (d @ 32 # t) = [d, t]"
    using nosp by (simp add: splitOn_sep splitOn_no_sep)
  have split2: "splitOn 45 d = [[y1, y2], [m1, m2], [d1, d2]]"
    using dig by (auto simp: dd isDigit_def)
  have notrim: "trim (d @ 32 # t) \<noteq> []"
    using dig digit_not_space[of y1] by (simp add: trim_empty_iff dd) 
  have td: "twoDigits y1 y2 = int (10 * a1 + a2)" "twoDigits m1 m2 = int (10 * b1 + b2)"
    "twoDigits d1 d2 = int (10 * c1 + c2)"
    by (simp_all add: twoDigits_def off)
  have p: "parseInt [y1, y2] = Some (int (10 * a1 + a2))" "parseInt [m1, m2] = Some (int (10 * b1 + b2))"
    "parseInt [d1, d2] = Some (int (10 * c1 + c2))"
    using parseInt_two_digits dig td by simp_all
  have cent: "js ''20'' = [50, 48]" "js ''19'' = [49, 57]"
    by (simp_all add: js_def)
  have "int (10 * a1 + a2) + 2000 = int (2000 + (10 * a1 + a2))"
    "int (10 * a1 + a2) + 1900 = int (1900 + (10 * a1 + a2))"
    by simp_all
  then have yr: "numToString (int (10 * a1 + a2) + 2000) = js ''20'' @ [y1, y2]"
    "numToString (int (10 * a1 + a2) + 1900) = js ''19'' @ [y1, y2]"
    using digitsOf_century[OF lt(1,2)]
    by (simp_all only: numToString_nat cent off append_Cons append_Nil)
  have mo: "padStart2 (numToString (int (10 * b1 + b2))) = [m1, m2]"
    "padStart2 (numToString (int (10 * c1 + c2))) = [d1, d2]"
    using padStart2_pair lt by (simp_all only: numToString_nat off)
  have range: "int (10 * a1 + a2) + 2000 \<le> 2100" "1900 \<le> int (10 * a1 + a2) + 1900"
    using lt by simp_all
  show ?thesis
    using notrim range
    by (simp add: parseTimeTrackerDate_def split1 d t split2 p intLess_def intGreater_def
        intPlus_def intToString_def yr mo Let_def del: of_nat_add of_nat_mult)
      (auto simp: dd td tt js_def)
qed


lemma normalise_some_shape:
  assumes "parseTimeTrackerDate D (Some s) \<noteq> None"
  shows "\<exists>d t. s = d @ 32 # t \<and> matchClasses datePattern d \<and> matchClasses timePattern t"
proof -
  let ?parts = "splitOn 32 s"
  from assms have len: "length ?parts = 2"
    by (auto simp: parseTimeTrackerDate_def Let_def split: if_splits)
  with assms have "matchClasses datePattern (?parts ! 0) \<and> matchClasses timePattern (?parts ! 1)"
    by (auto simp: parseTimeTrackerDate_def Let_def split: if_splits)
  moreover have "s = (?parts ! 0) @ 32 # (?parts ! 1)"
    using len by (rule splitOn_two)
  ultimately show ?thesis by blast
qed

lemma full_pattern_iff:
  "matchClasses (datePattern @ [lit '' ''] @ timePattern) s \<longleftrightarrow>
     (\<exists>d t. s = d @ 32 # t \<and> matchClasses datePattern d \<and> matchClasses timePattern t)"
proof
  assume "matchClasses (datePattern @ [lit '' ''] @ timePattern) s"
  then show "\<exists>d t. s = d @ 32 # t \<and> matchClasses datePattern d \<and> matchClasses timePattern t"
    by (auto simp: matchClasses_def list_all2_append1 list_all2_Cons1 lit_def js_def)
next
  assume "\<exists>d t. s = d @ 32 # t \<and> matchClasses datePattern d \<and> matchClasses timePattern t"
  then obtain d t where s: "s = d @ 32 # t" and d: "list_all2 (\<lambda>p c. p c) datePattern d"
    and t: "list_all2 (\<lambda>p c. p c) timePattern t"
    unfolding matchClasses_def by blast
  have "list_all2 (\<lambda>p c. p c) ([lit '' ''] @ timePattern) (32 # t)"
    using t by (simp add: lit_def js_def)
  with d have "list_all2 (\<lambda>p c. p c) (datePattern @ [lit '' ''] @ timePattern) (d @ 32 # t)"
    by (rule list_all2_appendI)
  then show "matchClasses (datePattern @ [lit '' ''] @ timePattern) s"
    by (simp add: matchClasses_def s)
qed

lemma matching_length: "matchClasses datePattern d \<Longrightarrow> length d = 8"
  by (auto simp: matchClasses_def datePattern_def dest: list_all2_lengthD)

lemma normalise_canonical:
  "parseTimeTrackerDate D (Some s) =
     (case canonicalForm s of None \<Rightarrow> None
      | Some c \<Rightarrow> if D c = None then None else Some c)"
proof (cases "matchClasses (datePattern @ [lit '' ''] @ timePattern) s")
  case True
  then obtain d t where s: "s = d @ 32 # t" and d: "matchClasses datePattern d"
    and t: "matchClasses timePattern t"
    unfolding full_pattern_iff by blast
  have len: "length d = 8" using d by (rule matching_length)
  have nth: "s ! 0 = d ! 0" "s ! 1 = d ! 1" "s ! 3 = d ! 3" "s ! 4 = d ! 4"
    "s ! 6 = d ! 6" "s ! 7 = d ! 7"
    using len by (simp_all add: s nth_append)
  have td: "take 8 s = d" "drop 9 s = t"
    using len by (simp_all add: s)
  show ?thesis
    unfolding canonicalForm_def nth td
    using True normalise_matching[OF d t, of D]
    by (simp add: s Let_def)
next
  case False
  then have "parseTimeTrackerDate D (Some s) = None"
    using normalise_some_shape[of D s] unfolding full_pattern_iff by blast
  with False show ?thesis by (simp add: canonicalForm_def)
qed

lemma iso_accepts_real: "realInstant c \<Longrightarrow> isoDateValue c \<noteq> None"
  by (auto simp: realInstant_def isoDateValue_def Let_def)

lemma canonical_example: "canonicalForm (js ''15-06-23 09:30:00'') = Some (js ''2015-06-23T09:30:00'')"
  by (simp add: canonicalForm_def matchClasses_def datePattern_def timePattern_def lit_def js_def
      isDigit_def twoDigits_def)

lemma real_example: "realInstant (js ''2015-06-23T09:30:00'')"
  by (simp add: realInstant_def isoPattern_def matchClasses_def lit_def js_def isDigit_def
      decimalValue_def daysInMonth_def Let_def)

section \<open>Date/time normaliser (C1)\<close>

text \<open>
  C1 (as amended): for every input, \<^verbatim>\<open>parseTimeTrackerDate\<close> returns \<^verbatim>\<open>null\<close> or the
  canonical string and never raises. It returns \<^verbatim>\<open>null\<close> for \<^verbatim>\<open>undefined\<close>, for empty
  or white-space-only input, for input that does not split on a single space into exactly two
  tokens, for tokens that do not match the two digit patterns, and for a month outside
  \<open>[1, 12]\<close> or a day outside \<open>[1, 31]\<close>. The input is \<^verbatim>\<open>YY-MM-DD HH:MM:SS\<close>, the year
  first: when the canonical string \<^verbatim>\<open>20YY-MM-DDTHH:MM:SS\<close> (year below 50) or
  \<^verbatim>\<open>19YY-MM-DDTHH:MM:SS\<close> (from 50 on) denotes a real calendar instant, that string is
  returned. The engine accepts every real calendar instant, as every engine does; what it
  does with other strings is not used.
\<close>

theorem parseTimeTrackerDate_spec:
  assumes "\<forall>c. realInstant c \<longrightarrow> D c \<noteq> None"
  shows "parseTimeTrackerDate D None = None
   \<and> ((\<forall>c \<in> set s. isWhiteSpace c) \<longrightarrow> parseTimeTrackerDate D (Some s) = None)
   \<and> (length (splitOn 32 s) \<noteq> 2 \<longrightarrow> parseTimeTrackerDate D (Some s) = None)
   \<and> (\<not> matchClasses (datePattern @ [lit '' ''] @ timePattern) s
        \<longrightarrow> parseTimeTrackerDate D (Some s) = None)
   \<and> (twoDigits (s ! 3) (s ! 4) < 1 \<or> 12 < twoDigits (s ! 3) (s ! 4)
        \<or> twoDigits (s ! 6) (s ! 7) < 1 \<or> 31 < twoDigits (s ! 6) (s ! 7)
        \<longrightarrow> parseTimeTrackerDate D (Some s) = None)
   \<and> (\<forall>c. canonicalForm s = Some c \<and> realInstant c \<longrightarrow> parseTimeTrackerDate D (Some s) = Some c)
   \<and> (parseTimeTrackerDate D (Some s) = None \<or> parseTimeTrackerDate D (Some s) = canonicalForm s)"
proof -
  note eq = normalise_canonical[of D s]
  have 1: "parseTimeTrackerDate D None = None"
    by (simp add: parseTimeTrackerDate_def)
  have 2: "parseTimeTrackerDate D (Some s) = None" if "\<forall>c \<in> set s. isWhiteSpace c"
    using that by (simp add: parseTimeTrackerDate_def trim_empty_iff)
  have 3: "parseTimeTrackerDate D (Some s) = None" if "length (splitOn 32 s) \<noteq> 2"
    using that by (simp add: parseTimeTrackerDate_def Let_def)
  have 4: "parseTimeTrackerDate D (Some s) = None"
    if "\<not> matchClasses (datePattern @ [lit '' ''] @ timePattern) s"
    using that by (simp add: eq canonicalForm_def)
  have 5: "parseTimeTrackerDate D (Some s) = None"
    if "twoDigits (s ! 3) (s ! 4) < 1 \<or> 12 < twoDigits (s ! 3) (s ! 4)
        \<or> twoDigits (s ! 6) (s ! 7) < 1 \<or> 31 < twoDigits (s ! 6) (s ! 7)"
    using that by (auto simp: eq canonicalForm_def)
  have 6: "parseTimeTrackerDate D (Some s) = Some c" if "canonicalForm s = Some c \<and> realInstant c" for c
    using that assms by (simp add: eq)
  have 7: "parseTimeTrackerDate D (Some s) = None \<or> parseTimeTrackerDate D (Some s) = canonicalForm s"
    by (simp add: eq split: option.splits)
  from 1 2 3 4 5 6 7 show ?thesis by blast
qed

text \<open>
  The clauses of C1 at concrete inputs: blank input, two spaces, a one-digit month, month 13,
  and \<^verbatim>\<open>15-06-23 09:30:00\<close>, which is 23 June 2015.
\<close>

theorem parseTimeTrackerDate_spec_witness:
  "parseTimeTrackerDate isoDateValue (Some (js ''   '')) = None
   \<and> parseTimeTrackerDate isoDateValue (Some (js ''15-06-23  09:30:00'')) = None
   \<and> parseTimeTrackerDate isoDateValue (Some (js ''15-6-23 09:30:00'')) = None
   \<and> parseTimeTrackerDate isoDateValue (Some (js ''15-13-23 09:30:00'')) = None
   \<and> realInstant (js ''2015-06-23T09:30:00'')
   \<and> parseTimeTrackerDate isoDateValue (Some (js ''15-06-23 09:30:00''))
        = Some (js ''2015-06-23T09:30:00'')"
proof -
  have e: "\<forall>c. realInstant c \<longrightarrow> isoDateValue c \<noteq> None"
    using iso_accepts_real by blast
  note spec = parseTimeTrackerDate_spec[OF e]
  have "\<forall>c \<in> set (js ''   ''). isWhiteSpace c"
    by (simp add: js_def isWhiteSpace_def)
  then have a: "parseTimeTrackerDate isoDateValue (Some (js ''   '')) = None"
    using spec[of "js ''   ''"] by blast
  have "length (splitOn 32 (js ''15-06-23  09:30:00'')) \<noteq> 2"
    by (simp add: js_def)
  then have b: "parseTimeTrackerDate isoDateValue (Some (js ''15-06-23  09:30:00'')) = None"
    using spec[of "js ''15-06-23  09:30:00''"] by blast
  have "\<not> matchClasses (datePattern @ [lit '' ''] @ timePattern) (js ''15-6-23 09:30:00'')"
    by (simp add: matchClasses_def datePattern_def timePattern_def lit_def js_def isDigit_def)
  then have c: "parseTimeTrackerDate isoDateValue (Some (js ''15-6-23 09:30:00'')) = None"
    using spec[of "js ''15-6-23 09:30:00''"] by blast
  have "12 < twoDigits (js ''15-13-23 09:30:00'' ! 3) (js ''15-13-23 09:30:00'' ! 4)"
    by (simp add: js_def twoDigits_def)
  then have d: "parseTimeTrackerDate isoDateValue (Some (js ''15-13-23 09:30:00'')) = None"
    using spec[of "js ''15-13-23 09:30:00''"] by blast
  have f: "parseTimeTrackerDate isoDateValue (Some (js ''15-06-23 09:30:00''))
        = Some (js ''2015-06-23T09:30:00'')"
    using spec[of "js ''15-06-23 09:30:00''"] canonical_example real_example by blast
  from a b c d f real_example show ?thesis by blast
qed

text \<open>
  C1 as stated fails on its example: \<^verbatim>\<open>15-06-23 09:30:00\<close> does not map to
  \<^verbatim>\<open>2023-06-15T09:30:00\<close>, because the first pair of digits is read as the year.
\<close>

theorem parseTimeTrackerDate_example_differs:
  "parseTimeTrackerDate isoDateValue (Some (js ''15-06-23 09:30:00''))
     = Some (js ''2015-06-23T09:30:00'')
   \<and> parseTimeTrackerDate isoDateValue (Some (js ''15-06-23 09:30:00''))
     \<noteq> Some (js ''2023-06-15T09:30:00'')"
  by (simp add: parseTimeTrackerDate_def js_def trim_def isWhiteSpace_def matchClasses_def
      datePattern_def timePattern_def isDigit_def lit_def parseInt_def digitValue_def intLess_def
      intGreater_def intPlus_def intToString_def numToString_def digitsOf.simps padStart2_def
      isoDateValue_def isoPattern_def decimalValue_def daysInMonth_def Let_def)

lemma normalise_result_valid:
  assumes "parseTimeTrackerDate D x = Some s"
  shows "D s \<noteq> None \<and> s \<noteq> []"
proof -
  from assms obtain str where x: "x = Some str"
    by (cases x) (simp_all add: parseTimeTrackerDate_def)
  from assms have "canonicalForm str = Some s \<and> D s \<noteq> None"
    unfolding x normalise_canonical by (auto split: option.splits if_splits)
  then show ?thesis
    by (auto simp: canonicalForm_def js_def split: if_splits)
qed

lemma duration_clamped:
  assumes "startTime e = Some s" "endTime e = Some t" "s \<noteq> []" "t \<noteq> []"
    "D s = Some a" "D t = Some b"
  shows "calculateEntryDuration D e = max 0 (min (of_int (b - a) / 3600000) 8760)"
  using assms by (simp add: calculateEntryDuration_def falsy_def Let_def)

section \<open>Round trip of canonical strings (C5)\<close>

text \<open>
  C5: a canonical string returned by the normaliser is accepted again by the engine, so an
  entry whose two endpoints are canonical strings gets the clamped difference of the two time
  values as its duration; \<^verbatim>\<open>calculateEntryDuration\<close> does not take its invalid-date branch.
\<close>

theorem canonical_roundtrip:
  assumes "parseTimeTrackerDate D x = Some s" and "parseTimeTrackerDate D y = Some t"
    and "startTime e = Some s" and "endTime e = Some t"
  shows "\<exists>a b. D s = Some a \<and> D t = Some b
           \<and> calculateEntryDuration D e = max 0 (min (of_int (b - a) / 3600000) 8760)"
proof -
  from assms(1) obtain a where a: "D s = Some a" and s: "s \<noteq> []"
    using normalise_result_valid by blast
  from assms(2) obtain b where b: "D t = Some b" and t: "t \<noteq> []"
    using normalise_result_valid by blast
  from duration_clamped[OF assms(3,4) s t a b] a b show ?thesis by blast
qed

text \<open>C5 at the entry from 09:00 to 11:30 on 15 June 2023.\<close>

theorem canonical_roundtrip_witness:
  "\<exists>a b. isoDateValue (js ''2023-06-15T09:00:00'') = Some a
     \<and> isoDateValue (js ''2023-06-15T11:30:00'') = Some b
     \<and> calculateEntryDuration isoDateValue
          \<lparr>name = Some (js ''A''), startTime = Some (js ''2023-06-15T09:00:00''),
           endTime = Some (js ''2023-06-15T11:30:00''), level = Some 0, duration = None\<rparr>
        = max 0 (min (of_int (b - a) / 3600000) 8760)"
proof -
  have ev: "\<And>s. parseTimeTrackerDate isoDateValue (Some s) =
    (case canonicalForm s of None \<Rightarrow> None | Some c \<Rightarrow> if isoDateValue c = None then None else Some c)"
    by (rule normalise_canonical)
  have 1: "parseTimeTrackerDate isoDateValue (Some (js ''23-06-15 09:00:00''))
             = Some (js ''2023-06-15T09:00:00'')"
    unfolding ev
    by (simp add: canonicalForm_def matchClasses_def datePattern_def timePattern_def lit_def js_def
        isDigit_def twoDigits_def isoDateValue_def isoPattern_def decimalValue_def daysInMonth_def
        Let_def)
  have 2: "parseTimeTrackerDate isoDateValue (Some (js ''23-06-15 11:30:00''))
             = Some (js ''2023-06-15T11:30:00'')"
    unfolding ev
    by (simp add: canonicalForm_def matchClasses_def datePattern_def timePattern_def lit_def js_def
        isDigit_def twoDigits_def isoDateValue_def isoPattern_def decimalValue_def daysInMonth_def
        Let_def)
  show ?thesis
    by (rule canonical_roundtrip[OF 1 2]) simp_all
qed

lemma foldl_plus_sum:
  fixes f :: "'a \<Rightarrow> rat"
  shows "foldl (\<lambda>total entry. total + f entry) a es = a + sum_list (map f es)"
  by (induction es arbitrary: a) simp_all

lemma duration_range: "0 \<le> calculateEntryDuration D e \<and> calculateEntryDuration D e \<le> 8760"
  by (simp add: calculateEntryDuration_def Let_def split: option.splits prod.splits)

lemma iso_empty: "isoDateValue [] = None"
  by (simp add: isoDateValue_def isoPattern_def matchClasses_def)

section \<open>Entry durations and total hours (C3)\<close>

text \<open>
  C3: the duration of an entry is 0 when its start or its end is \<^verbatim>\<open>null\<close> or is not a
  date for the engine, and else the difference of the two time values in hours, clamped to
  \<open>[0, 8760]\<close>; it is never negative and never above 8760; the total hours are the sum of
  the durations of the entries, and that sum is the figure printed next to the total hours
  label. The engine rejects the empty string, as every engine does.
\<close>

theorem calculateEntryDuration_spec:
  assumes "engineDate P [] = None"
  shows "calculateEntryDuration (engineDate P) e =
           (case (startTime e, endTime e) of
              (Some s, Some t) \<Rightarrow>
                (case (engineDate P s, engineDate P t) of
                   (Some a, Some b) \<Rightarrow> max 0 (min (of_int (b - a) / 3600000) 8760)
                 | _ \<Rightarrow> 0)
            | _ \<Rightarrow> 0)
         \<and> 0 \<le> calculateEntryDuration (engineDate P) e
         \<and> calculateEntryDuration (engineDate P) e \<le> 8760
         \<and> calculateTotalHours (engineDate P) es
             = sum_list (map (calculateEntryDuration (engineDate P)) es)
         \<and> Text (toFixed2 P (Finite (sum_list (map (calculateEntryDuration (engineDate P)) es))))
              190 (autoTableFinalY P (map (tableRow P S (optionalFlatRate options \<noteq> None)) es) + 20)
              AlignRight
             \<in> set (addPDFContent P S amb es options)"
proof -
  have "calculateEntryDuration (engineDate P) e =
           (case (startTime e, endTime e) of
              (Some s, Some t) \<Rightarrow>
                (case (engineDate P s, engineDate P t) of
                   (Some a, Some b) \<Rightarrow> max 0 (min (of_int (b - a) / 3600000) 8760)
                 | _ \<Rightarrow> 0)
            | _ \<Rightarrow> 0)"
    using assms
    by (auto simp: calculateEntryDuration_def falsy_def Let_def split: option.splits)
  moreover have tot: "calculateTotalHours (engineDate P) es
                 = sum_list (map (calculateEntryDuration (engineDate P)) es)"
    by (simp add: calculateTotalHours_def foldl_plus_sum)
  moreover have "Text (toFixed2 P (Finite (calculateTotalHours (engineDate P) es)))
              190 (autoTableFinalY P (map (tableRow P S (optionalFlatRate options \<noteq> None)) es) + 20)
              AlignRight
             \<in> set (addPDFContent P S amb es options)"
    by (simp add: addPDFContent_def Let_def)
  ultimately show ?thesis using duration_range[of "engineDate P" e] by simp
qed

text \<open>C3 at a 2.5 hour entry, an entry that ends before it starts, and an entry with no start.\<close>

theorem calculateEntryDuration_spec_witness:
  "engineDate memoryPlatform [] = None
   \<and> calculateEntryDuration (engineDate memoryPlatform)
        \<lparr>name = Some (js ''A''), startTime = Some (js ''2023-06-15T09:00:00''),
         endTime = Some (js ''2023-06-15T11:30:00''), level = Some 0, duration = None\<rparr> = 5 / 2
   \<and> calculateEntryDuration (engineDate memoryPlatform)
        \<lparr>name = Some (js ''B''), startTime = Some (js ''2023-06-15T11:30:00''),
         endTime = Some (js ''2023-06-15T09:00:00''), level = Some 0, duration = None\<rparr> = 0
   \<and> calculateEntryDuration (engineDate memoryPlatform)
        \<lparr>name = Some (js ''C''), startTime = None,
         endTime = Some (js ''2023-06-15T09:00:00''), level = Some 0, duration = None\<rparr> = 0"
proof -
  have e: "engineDate memoryPlatform = isoDateValue"
    by (simp add: memoryPlatform_def)
  have v: "isoDateValue (js ''2023-06-15T09:00:00'') = Some 1686819600000"
    "isoDateValue (js ''2023-06-15T11:30:00'') = Some 1686828600000"
    by (simp_all add: isoDateValue_def isoPattern_def matchClasses_def lit_def js_def isDigit_def
        decimalValue_def daysInMonth_def daysFromCivil_def Let_def)
  have z: "engineDate memoryPlatform [] = None"
    by (simp add: e iso_empty)
  have spec: "\<And>x. calculateEntryDuration (engineDate memoryPlatform) x =
           (case (startTime x, endTime x) of
              (Some s, Some t) \<Rightarrow>
                (case (engineDate memoryPlatform s, engineDate memoryPlatform t) of
                   (Some a, Some b) \<Rightarrow> max 0 (min (of_int (b - a) / 3600000) 8760)
                 | _ \<Rightarrow> 0)
            | _ \<Rightarrow> 0)"
    using calculateEntryDuration_spec[OF z, of _ "[]" acmeSettings None
        "\<lparr>clockNow = \<lparr>fullYear = 2024, month0 = 0, dayOfMonth = 5\<rparr>, mathRandom = 0\<rparr>"]
    by blast
  show ?thesis
    unfolding spec by (simp add: e iso_empty v)
qed

section \<open>Properties of the extraction loop\<close>

lemma extractLoop_eq:
  "i \<le> length rows \<Longrightarrow>
   extractLoop D rows i entries =
     entries @ map (rowEntry D) (filter (\<lambda>cells. 4 \<le> length cells) (take (1001 - i) (drop i rows)))"
proof (induction D rows i entries rule: extractLoop.induct)
  case (1 D rows i entries)
  show ?case
  proof (cases "i < min (length rows) 1001")
    case True
    then have i: "i < length rows" "i < 1001" by simp_all
    have dr: "drop i rows = rows ! i # drop (Suc i) rows"
      using i(1) by (simp add: Cons_nth_drop_Suc)
    have tk: "take (1001 - i) (drop i rows) = rows ! i # take (1001 - Suc i) (drop (Suc i) rows)"
    proof -
      have "1001 - i = Suc (1001 - Suc i)" using i(2) by simp
      then show ?thesis by (simp only: dr take_Suc_Cons)
    qed
    show ?thesis
    proof (cases "4 \<le> length (rows ! i)")
      case four: True
      have "extractLoop D rows i entries = extractLoop D rows (i + 1) (entries @ [rowEntry D (rows ! i)])"
        using True four by (subst extractLoop.simps) (simp add: Let_def)
      also have "\<dots> = (entries @ [rowEntry D (rows ! i)]) @ map (rowEntry D)
          (filter (\<lambda>cells. 4 \<le> length cells) (take (1001 - (i + 1)) (drop (i + 1) rows)))"
        using "1.IH"(1)[OF True refl four] i(1) by simp
      finally show ?thesis using four by (simp add: tk)
    next
      case few: False
      have "extractLoop D rows i entries = extractLoop D rows (i + 1) entries"
        using True few by (subst extractLoop.simps) (simp add: Let_def)
      also have "\<dots> = entries @ map (rowEntry D)
          (filter (\<lambda>cells. 4 \<le> length cells) (take (1001 - (i + 1)) (drop (i + 1) rows)))"
        using "1.IH"(2)[OF True refl few] i(1) by simp
      finally show ?thesis using few by (simp add: tk)
    qed
  next
    case False
    with "1.prems" have "i = length rows \<or> 1001 \<le> i" by auto
    then have tk0: "take (1001 - i) (drop i rows) = []" by auto
    have el: "extractLoop D rows i entries = entries"
      using False by (subst extractLoop.simps) auto
    show ?thesis unfolding el tk0 by simp
  qed
qed

lemma extractLoop_rows:
  "extractLoop D rows 1 [] =
     map (rowEntry D) (filter (\<lambda>cells. 4 \<le> length cells) (take 1000 (drop 1 rows)))"
proof (cases rows)
  case Nil
  then show ?thesis by (subst extractLoop.simps) simp
next
  case (Cons r rs)
  then have "1 \<le> length rows" by simp
  from extractLoop_eq[OF this, of D "[]"] show ?thesis by simp
qed

lemma qualifying_count:
  "length (filter P (take 1000 (drop 1 rows))) =
     card {i. 1 \<le> i \<and> i \<le> 1000 \<and> i < length rows \<and> P (rows ! i)}"
proof -
  let ?xs = "take 1000 (drop 1 rows)"
  have "{i. 1 \<le> i \<and> i \<le> 1000 \<and> i < length rows \<and> P (rows ! i)}
          = Suc ` {j. j < length ?xs \<and> P (?xs ! j)}"
  proof (rule set_eqI, rule iffI)
    fix i
    assume "i \<in> {i. 1 \<le> i \<and> i \<le> 1000 \<and> i < length rows \<and> P (rows ! i)}"
    then obtain j where j: "i = Suc j" and b: "j < 1000" "Suc j < length rows" and p: "P (rows ! Suc j)"
      by (cases i) auto
    from b p have "j < length ?xs \<and> P (?xs ! j)" by simp
    with j show "i \<in> Suc ` {j. j < length ?xs \<and> P (?xs ! j)}" by blast
  next
    fix i
    assume "i \<in> Suc ` {j. j < length ?xs \<and> P (?xs ! j)}"
    then obtain j where j: "i = Suc j" and b: "j < length ?xs" and p: "P (?xs ! j)" by blast
    from b have "j < 1000" "Suc j < length rows" by (simp_all add: less_diff_conv)
    with p j show "i \<in> {i. 1 \<le> i \<and> i \<le> 1000 \<and> i < length rows \<and> P (rows ! i)}" by simp
  qed
  then have "card {i. 1 \<le> i \<and> i \<le> 1000 \<and> i < length rows \<and> P (rows ! i)}
               = card {j. j < length ?xs \<and> P (?xs ! j)}"
    by (simp add: card_image)
  then show ?thesis by (simp add: length_filter_conv_card)
qed

section \<open>Row cap of the extractor (C6)\<close>

text \<open>
  C6: the extractor skips row 0 and reads the rows at the indices 1 to 1000 that exist; each of
  them with at least four cells gives exactly one entry, in order, and each with fewer cells
  gives none. Rows from index 1001 on change nothing, and no input raises an error. The
  result is \<^verbatim>\<open>null\<close> when no row qualifies.
\<close>

theorem extractDataFromTable_rows:
  "extractDataFromTable D rows =
     (let entries = map (rowEntry D) (filter (\<lambda>cells. 4 \<le> length cells) (take 1000 (drop 1 rows)))
      in if entries = [] then None else Some entries)
   \<and> extractDataFromTable D rows = extractDataFromTable D (take 1001 rows)
   \<and> length (extractLoop D rows 1 []) =
       card {i. 1 \<le> i \<and> i \<le> 1000 \<and> i < length rows \<and> 4 \<le> length (rows ! i)}"
proof -
  have e: "\<And>rs. extractLoop D rs 1 [] =
     map (rowEntry D) (filter (\<lambda>cells. 4 \<le> length cells) (take 1000 (drop 1 rs)))"
    by (rule extractLoop_rows)
  have t: "take 1000 (drop 1 (take 1001 rows)) = take 1000 (drop 1 rows)"
    by (simp add: drop_take)
  show ?thesis
    unfolding extractDataFromTable_def e t
    by (simp add: Let_def qualifying_count[of "\<lambda>cells. 4 \<le> length cells" rows, simplified])
qed

section \<open>Properties of the flattening loop\<close>

lemma processLoop_preorder:
  "processLoop D es lvl acc = acc @ preorder D lvl es"
proof (induction D es lvl acc rule: processLoop.induct)
  case (1 D lvl acc)
  then show ?case by simp
next
  case (2 D nm st en lv subs rest lvl acc)
  show ?case
  proof (cases subs)
    case None
    with 2 show ?thesis by (simp add: Let_def)
  next
    case (Some children)
    show ?thesis
    proof (cases "0 < length children")
      case True
      with 2 Some show ?thesis by (simp add: Let_def)
    next
      case False
      then have "children = []" by simp
      with 2 Some show ?thesis by (simp add: Let_def)
    qed
  qed
qed

lemma preorder_length: "length (preorder D d es) = countEntries es"
  by (induction D d es rule: preorder.induct) (simp_all split: option.splits)

lemma preorder_append: "preorder D d (xs @ ys) = preorder D d xs @ preorder D d ys"
  by (induction D d xs rule: preorder.induct) simp_all

section \<open>Pre-order flattening (C4)\<close>

text \<open>
  C4: for every nested entry list and every starting depth, \<^verbatim>\<open>processEntries\<close> returns the
  pre-order flattening: each entry gives one output entry with its depth as level, followed at
  once by the flattening of its sub-entries one level deeper, then by the flattening of the
  entries after it. The output has one entry per input entry, sub-entries included, and the
  list with A and its sub-entry B, from depth 0, gives A at level 0 and B at level 1.
\<close>

theorem processEntries_preorder:
  "processEntries D es d = preorder D d es
   \<and> processEntries D (xs @ ys) d = processEntries D xs d @ processEntries D ys d
   \<and> length (processEntries D es d) = countEntries es
   \<and> processEntries D (RawEntry nm st en lv subs # rest) d =
        \<lparr>name = nm, startTime = st, endTime = en, level = Some d,
         duration = Some (calculateDuration D st en)\<rparr>
        # processEntries D (case subs of None \<Rightarrow> [] | Some children \<Rightarrow> children) (d + 1)
        @ processEntries D rest d
   \<and> map (\<lambda>e. (name e, level e))
         (processEntries D
            [RawEntry (Some (js ''A'')) None None None
               (Some [RawEntry (Some (js ''B'')) None None None None])] 0)
       = [(Some (js ''A''), Some 0), (Some (js ''B''), Some 1)]"
  by (simp add: processEntries_def processLoop_preorder preorder_length preorder_append
      split: option.splits)

section \<open>Failure of the layout (C9)\<close>

text \<open>
  C9: when the PDF library throws while the document is composed, \<^verbatim>\<open>generatePDF\<close> throws
  one error whose message is the original message behind \<^verbatim>\<open>PDF generation failed:\<close>, and
  \<^verbatim>\<open>generateInvoice\<close> throws one error with that message behind
  \<^verbatim>\<open>Failed to generate invoice:\<close>. The host has only seen the console message: no path
  was generated, no folder or file created, no document returned.
\<close>

theorem layout_failure_wrapped:
  assumes "jsPDF H (addPDFContent P settings ambPdf entries options) = Inl m"
  shows "generatePDF H P settings ambPdf entries options = Inl (js ''PDF generation failed: '' @ m)
       \<and> generateInvoice H P settings ambPdf ambPath entries options w =
           (Some (js ''Failed to generate invoice: '' @ js ''PDF generation failed: '' @ m),
            consoleError H w (js ''PDF generation failed: '' @ m))"
  using assms by (simp add: generatePDF_def generateInvoice_def rethrow_def)

text \<open>C9 on the host in memory with a library that throws \<^verbatim>\<open>boom\<close>: the vault stays empty.\<close>

theorem layout_failure_wrapped_witness:
  "(let a1 = \<lparr>clockNow = \<lparr>fullYear = 2024, month0 = 0, dayOfMonth = 5\<rparr>, mathRandom = 0\<rparr>;
        a2 = \<lparr>clockNow = \<lparr>fullYear = 2024, month0 = 0, dayOfMonth = 5\<rparr>, mathRandom = 1 / 2\<rparr>;
        H = memoryHost (\<lambda>ops. Inl (js ''boom''))
    in jsPDF H (addPDFContent memoryPlatform acmeSettings a1 [] None) = Inl (js ''boom'')
       \<and> generateInvoice H memoryPlatform acmeSettings a1 a2 [] None emptyVault =
           (Some (js ''Failed to generate invoice: PDF generation failed: boom''),
            emptyVault\<lparr>consoleErrors := [js ''PDF generation failed: boom'']\<rparr>)
       \<and> files (snd (generateInvoice H memoryPlatform acmeSettings a1 a2 [] None emptyVault)) = [])"
proof -
  let ?a1 = "\<lparr>clockNow = \<lparr>fullYear = 2024, month0 = 0, dayOfMonth = 5\<rparr>, mathRandom = 0\<rparr>"
  let ?a2 = "\<lparr>clockNow = \<lparr>fullYear = 2024, month0 = 0, dayOfMonth = 5\<rparr>, mathRandom = 1 / 2\<rparr>"
  let ?H = "memoryHost (\<lambda>ops. Inl (js ''boom''))"
  have f: "jsPDF ?H (addPDFContent memoryPlatform acmeSettings ?a1 [] None) = Inl (js ''boom'')"
    by (simp add: memoryHost_def)
  have c: "consoleError ?H emptyVault (js ''PDF generation failed: '' @ js ''boom'')
             = emptyVault\<lparr>consoleErrors := [js ''PDF generation failed: boom'']\<rparr>"
    by (simp add: memoryHost_def emptyVault_def js_def)
  have m: "js ''Failed to generate invoice: '' @ js ''PDF generation failed: '' @ js ''boom''
             = js ''Failed to generate invoice: PDF generation failed: boom''"
    by (simp add: js_def)
  from layout_failure_wrapped[OF f, of ?a2 emptyVault]
  have "generateInvoice ?H memoryPlatform acmeSettings ?a1 ?a2 [] None emptyVault =
          (Some (js ''Failed to generate invoice: '' @ js ''PDF generation failed: '' @ js ''boom''),
           consoleError ?H emptyVault (js ''PDF generation failed: '' @ js ''boom''))"
    by blast
  then have g: "generateInvoice ?H memoryPlatform acmeSettings ?a1 ?a2 [] None emptyVault =
          (Some (js ''Failed to generate invoice: PDF generation failed: boom''),
           emptyVault\<lparr>consoleErrors := [js ''PDF generation failed: boom'']\<rparr>)"
    unfolding c m .
  have "files (emptyVault\<lparr>consoleErrors := [js ''PDF generation failed: boom'']\<rparr>) = []"
    by (simp add: emptyVault_def)
  with f g show ?thesis unfolding Let_def by simp
qed


section \<open>Properties of the composed document\<close>

lemma js_append: "js a @ js b = js (a @ b)"
  by (simp add: js_def)

lemma header_number:
  "Text (js ''Invoice #: '' @ escapeText (generateInvoiceNumber (clockNow amb) (mathRandom amb)))
      200 45 AlignRight \<in> set (addPDFContent P settings amb entries options)"
  by (simp add: addPDFContent_def Let_def)

section \<open>Two invoice numbers per invoice (C10)\<close>

text \<open>
  C10: the number printed in the header comes from the clock and the random draw read by
  \<^verbatim>\<open>addPDFContent\<close>, the number in the file name from those read by
  \<^verbatim>\<open>generateFilePath\<close>. With the draws 0 and 0.5 on 5 January 2024 the saved file is
  named \<^verbatim>\<open>Acme-invoice-2024-01-05-5000.pdf\<close> and shows \<^verbatim>\<open>Invoice #: 2024-01-05-0\<close>: the
  two numbers need not agree.
\<close>

theorem invoice_numbers_independent:
  "Text (js ''Invoice #: '' @ escapeText (generateInvoiceNumber (clockNow ambPdf) (mathRandom ambPdf)))
      200 45 AlignRight \<in> set (addPDFContent P settings ambPdf entries options)
   \<and> generateFilePath H settings ambPath =
       normalizePath H
         (momentFormat H (clockNow ambPath)
            (if invoiceDirectory settings = [] then js ''Invoices/YYYY/MM''
             else invoiceDirectory settings)
          @ js ''/''
          @ sanitizeFilename (if companyName settings = [] then js ''Company''
                              else companyName settings)
          @ js ''-invoice-''
          @ generateInvoiceNumber (clockNow ambPath) (mathRandom ambPath) @ js ''.pdf'')
   \<and> (\<exists>w ops.
         generateInvoice (memoryHost Inr) memoryPlatform acmeSettings
           \<lparr>clockNow = \<lparr>fullYear = 2024, month0 = 0, dayOfMonth = 5\<rparr>, mathRandom = 0\<rparr>
           \<lparr>clockNow = \<lparr>fullYear = 2024, month0 = 0, dayOfMonth = 5\<rparr>, mathRandom = 1 / 2\<rparr>
           [] None emptyVault = (None, w)
       \<and> files w = [(js ''Invoices/2024/01/Acme-invoice-2024-01-05-5000.pdf'', ops)]
       \<and> Text (js ''Invoice #: 2024-01-05-0'') 200 45 AlignRight \<in> set ops)"
proof (intro conjI)
  show "Text (js ''Invoice #: '' @ escapeText (generateInvoiceNumber (clockNow ambPdf) (mathRandom ambPdf)))
      200 45 AlignRight \<in> set (addPDFContent P settings ambPdf entries options)"
    by (rule header_number)
  show "generateFilePath H settings ambPath =
       normalizePath H
         (momentFormat H (clockNow ambPath)
            (if invoiceDirectory settings = [] then js ''Invoices/YYYY/MM''
             else invoiceDirectory settings)
          @ js ''/''
          @ sanitizeFilename (if companyName settings = [] then js ''Company''
                              else companyName settings)
          @ js ''-invoice-''
          @ generateInvoiceNumber (clockNow ambPath) (mathRandom ambPath) @ js ''.pdf'')"
    by (simp add: generateFilePath_def Let_def)
  let ?c = "\<lparr>fullYear = 2024, month0 = 0, dayOfMonth = 5\<rparr>"
  let ?a1 = "\<lparr>clockNow = ?c, mathRandom = 0\<rparr>"
  let ?a2 = "\<lparr>clockNow = ?c, mathRandom = 1 / 2\<rparr>"
  let ?ops = "addPDFContent memoryPlatform acmeSettings ?a1 [] None"
  let ?path = "js ''Invoices/2024/01/Acme-invoice-2024-01-05-5000.pdf''"
  have n1: "generateInvoiceNumber ?c 0 = js ''2024-01-05-0''"
    by (simp add: generateInvoiceNumber_def numToString_def padStart2_def js_def digitsOf.simps Let_def)
  have n2: "generateInvoiceNumber ?c (1 / 2) = js ''2024-01-05-5000''"
    by (simp add: generateInvoiceNumber_def numToString_def padStart2_def js_def digitsOf.simps Let_def)
  have esc: "escapeText (js ''2024-01-05-0'') = js ''2024-01-05-0''"
    by (simp add: escapeText_def js_def isControl_def)
  have hdr: "Text (js ''Invoice #: 2024-01-05-0'') 200 45 AlignRight \<in> set ?ops"
    using header_number[of ?a1 memoryPlatform acmeSettings "[]" None]
    by (simp add: n1 esc js_append)
  have path: "generateFilePath (memoryHost Inr) acmeSettings ?a2 = ?path"
    by (simp add: generateFilePath_def n2 Let_def)
      (simp add: memoryHost_def acmeSettings_def js_def sanitizeFilename_def isUnsafeChar_def
        isWhiteSpace_def stripHyphens_def numToString_def padStart2_def digitsOf.simps)
  have dir: "ensureDirectoryExists (memoryHost Inr) ?path emptyVault =
               (None, emptyVault\<lparr>folders := [js ''Invoices'', js ''Invoices/2024'',
                                                 js ''Invoices/2024/01'']\<rparr>)"
    by (simp add: ensureDirectoryExists_def createDirectoryRecursive_def memoryHost_def
        memoryExists_def emptyVault_def js_def Let_def)
  have pdf: "generatePDF (memoryHost Inr) memoryPlatform acmeSettings ?a1 [] None = Inr ?ops"
    by (simp add: generatePDF_def memoryHost_def)
  have "generateInvoice (memoryHost Inr) memoryPlatform acmeSettings ?a1 ?a2 [] None emptyVault =
          (None, emptyVault\<lparr>folders := [js ''Invoices'', js ''Invoices/2024'', js ''Invoices/2024/01''],
                            files := [(?path, ?ops)],
                            notices := [js ''Invoice saved to: '' @ ?path],
                            opened := [?path]\<rparr>)"
    unfolding generateInvoice_def pdf path
    by (simp add: dir Let_def) (simp add: memoryHost_def memoryExists_def emptyVault_def js_def)
  with hdr show "\<exists>w ops.
         generateInvoice (memoryHost Inr) memoryPlatform acmeSettings ?a1 ?a2 [] None emptyVault = (None, w)
       \<and> files w = [(?path, ops)]
       \<and> Text (js ''Invoice #: 2024-01-05-0'') 200 45 AlignRight \<in> set ops"
    by (simp add: emptyVault_def)
qed

section \<open>Flat-rate and hourly mode (C2)\<close>



section \<open>Values of the engine in memory\<close>







end
